theory Spec2Isabelle
  imports Main "HOL-Library.Word"
begin

section \<open>JavaScript strings\<close>

text \<open>
  A JavaScript string is a sequence of UTF-16 code units: \<open>length\<close> counts code units,
  \<open>substring\<close> cuts at code units and \<open>includes\<close> compares code units. The texts of the
  program that are not ASCII (messages, style tags) are written as their code units.
\<close>

type_synonym jsstring = "16 word list"

definition ascii :: "string \<Rightarrow> jsstring" where
  "ascii s = map of_char s"

text \<open>\<open>s.includes(sub)\<close>: some suffix of \<open>s\<close> starts with \<open>sub\<close>.\<close>

fun js_includes :: "jsstring \<Rightarrow> jsstring \<Rightarrow> bool" where
  "js_includes [] sub = (sub = [])"
| "js_includes (c # cs) sub = (take (length sub) (c # cs) = sub \<or> js_includes cs sub)"

text \<open>\<open>s.endsWith(suffix)\<close>.\<close>

definition js_endsWith :: "jsstring \<Rightarrow> jsstring \<Rightarrow> bool" where
  "js_endsWith s suffix = (length suffix \<le> length s \<and> drop (length s - length suffix) s = suffix)"

text \<open>\<open>s.substring(0, n)\<close> for a non-negative integer \<open>n\<close>.\<close>

definition substring0 :: "jsstring \<Rightarrow> nat \<Rightarrow> jsstring" where
  "substring0 s n = take n s"

text \<open>
  The decimal digits of a non-negative integer, as a template literal prints a number
  (the numbers printed here are slide counts, indexes and millisecond clocks).
\<close>

definition digit :: "nat \<Rightarrow> 16 word" where
  "digit d = of_nat (48 + d)"

fun showNat :: "nat \<Rightarrow> jsstring" where
  "showNat n = (if n < 10 then [digit n] else showNat (n div 10) @ [digit (n mod 10)])"

declare showNat.simps [simp del]

text \<open>A value used as a condition: a string is truthy when present and not empty.\<close>

fun truthy :: "jsstring option \<Rightarrow> bool" where
  "truthy None = False"
| "truthy (Some s) = (s \<noteq> [])"

section \<open>types.ts\<close>

text \<open>The string-literal unions, with the string each member is at run time.\<close>

datatype ComplexityLevel = LevelGeneral | LevelProfessional | LevelAcademic | LevelExecutive

fun levelText :: "ComplexityLevel \<Rightarrow> jsstring" where
  "levelText LevelGeneral = [0x901A, 0x7528]"
| "levelText LevelProfessional = [0x4E13, 0x4E1A]"
| "levelText LevelAcademic = [0x5B66, 0x672F]"
| "levelText LevelExecutive = [0x884C, 0x653F, 0x9AD8, 0x7BA1]"

datatype VisualStyle = StyleModernMinimal | StyleBusinessTech | StyleCreativeArt
  | StyleDarkMode | StyleNaturalFresh

datatype Language = SimplifiedChinese | English | Spanish | French | German | Japanese

fun languageText :: "Language \<Rightarrow> jsstring" where
  "languageText SimplifiedChinese = [0x7B80, 0x4F53, 0x4E2D, 0x6587]"
| "languageText English = ascii ''English''"
| "languageText Spanish = ascii ''Spanish''"
| "languageText French = ascii ''French''"
| "languageText German = ascii ''German''"
| "languageText Japanese = ascii ''Japanese''"

record Slide =
  slide_id :: jsstring
  slide_data :: jsstring
  slide_title :: jsstring
  speakerNotes :: jsstring

record SearchResultItem =
  source_title :: jsstring
  url :: jsstring

record Presentation =
  pres_id :: jsstring
  topic :: jsstring
  timestamp :: nat
  slides :: "Slide list"
  level :: ComplexityLevel
  style :: VisualStyle
  sources :: "SearchResultItem list"

record SlideOutline =
  title :: jsstring
  content :: jsstring
  visualDescription :: jsstring

text \<open>
  The outline is what \<open>JSON.parse\<close> returns, assigned to \<open>SlideOutline[]\<close> without a
  check, so an element of it can be \<open>null\<close>. An element is \<open>null\<close> or an object of the
  declared shape, with its three string fields; elements of any other shape are not
  modelled.
\<close>

datatype OutlineEntry = NullEntry | Entry SlideOutline

text \<open>
  \<open>file_data\<close> is what \<open>base64.split(',')[1]\<close> gave when the file was attached: absent when
  the data URL had no comma.
\<close>

record UploadedFile =
  file_name :: jsstring
  file_type :: jsstring
  file_data :: "jsstring option"

section \<open>services/geminiService.ts: grounding citations\<close>

text \<open>
  A grounding chunk of the response; \<open>web\<close>, \<open>uri\<close> and the title may each be missing
  (\<open>chunk.web?.uri\<close>, \<open>chunk.web?.title\<close>).
\<close>

record GroundingChunkWeb =
  uri :: "jsstring option"
  web_title :: "jsstring option"

record GroundingChunk =
  web :: "GroundingChunkWeb option"

definition chunkUri :: "GroundingChunk \<Rightarrow> jsstring option" where
  "chunkUri chunk = (case web chunk of None \<Rightarrow> None | Some w \<Rightarrow> uri w)"

definition chunkTitle :: "GroundingChunk \<Rightarrow> jsstring option" where
  "chunkTitle chunk = (case web chunk of None \<Rightarrow> None | Some w \<Rightarrow> web_title w)"

text \<open>The body of \<open>chunks.forEach\<close>: push the reference when both fields are truthy.\<close>

definition pushSource :: "GroundingChunk \<Rightarrow> SearchResultItem list \<Rightarrow> SearchResultItem list" where
  "pushSource chunk acc =
     (case (chunkUri chunk, chunkTitle chunk) of
        (Some u, Some t) \<Rightarrow>
          (if truthy (Some u) \<and> truthy (Some t) then acc @ [\<lparr>source_title = t, url = u\<rparr>] else acc)
      | _ \<Rightarrow> acc)"

definition extractSources :: "GroundingChunk list option \<Rightarrow> SearchResultItem list" where
  "extractSources chunks = (case chunks of None \<Rightarrow> [] | Some cs \<Rightarrow> fold pushSource cs [])"

text \<open>
  A JavaScript \<open>Map\<close> keeps its entries in insertion order; \<open>set\<close> on a key already
  present replaces the value and keeps the entry's place. \<open>new Map(entries)\<close> sets the
  entries one after the other, \<open>values()\<close> lists the values in entry order.
\<close>

type_synonym ('k, 'v) jsmap = "('k \<times> 'v) list"

fun map_set :: "'k \<Rightarrow> 'v \<Rightarrow> ('k, 'v) jsmap \<Rightarrow> ('k, 'v) jsmap" where
  "map_set k v [] = [(k, v)]"
| "map_set k v ((k', v') # m) = (if k' = k then (k, v) # m else (k', v') # map_set k v m)"

definition new_Map :: "('k \<times> 'v) list \<Rightarrow> ('k, 'v) jsmap" where
  "new_Map entries = fold (\<lambda>(k, v) m. map_set k v m) entries []"

definition map_values :: "('k, 'v) jsmap \<Rightarrow> 'v list" where
  "map_values m = map snd m"

definition uniqueSources :: "SearchResultItem list \<Rightarrow> SearchResultItem list" where
  "uniqueSources srcs = map_values (new_Map (map (\<lambda>item. (url item, item)) srcs))"





section \<open>services/geminiService.ts: requests and responses\<close>

text \<open>
  What is thrown: only the \<open>message\<close> of the thrown value is ever read, and it may be
  missing.
\<close>

datatype thrown = Thrown (message: "jsstring option")

text \<open>
  A \<open>generateContent\<close> request: the model, the parts of the content and the config,
  which is \<open>{}\<close>, \<open>{ tools: [{ googleSearch: {} }] }\<close> or
  \<open>{ responseModalities: [Modality.IMAGE] }\<close>.
\<close>

datatype Part = TextPart jsstring | InlineDataPart jsstring "jsstring option"

datatype Tool = GoogleSearch

datatype Modality = IMAGE

datatype Config = EmptyConfig | ToolsConfig "Tool list" | ModalitiesConfig "Modality list"

record GenerateContentRequest =
  model :: jsstring
  parts :: "Part list"
  config :: Config

text \<open>
  Of the text model's response the code reads \<open>response.text\<close> and
  \<open>response.candidates?.[0]?.groundingMetadata?.groundingChunks\<close>; each is absent when
  a link of its chain is.
\<close>

record TextResponse =
  resp_text :: "jsstring option"
  groundingChunks :: "GroundingChunk list option"

text \<open>
  Of the image model's response the code reads
  \<open>response.candidates?.[0]?.content?.parts?.[0]\<close>, then its \<open>inlineData\<close> and the
  \<open>data\<close> of that.
\<close>

record InlineData =
  data :: "jsstring option"

record ResponsePart =
  inlineData :: "InlineData option"

record ImageResponse =
  firstPart :: "ResponsePart option"

definition TEXT_MODEL :: jsstring where
  "TEXT_MODEL = ascii ''gemini-3-pro-preview''"

definition IMAGE_MODEL :: jsstring where
  "IMAGE_MODEL = ascii ''gemini-3-pro-image-preview''"

text \<open>
  The \<open>default\<close> branch of the switch answers a string outside the five style tags; the
  type \<open>VisualStyle\<close> has no such member.
\<close>

fun getStyleInstruction :: "VisualStyle \<Rightarrow> jsstring" where
  "getStyleInstruction StyleModernMinimal = ascii ''Style: Minimalist, plenty of white space, sans-serif typography, soft pastel accents. Professional and airy.''"
| "getStyleInstruction StyleBusinessTech = ascii ''Style: Fortune 500 business style. Navy blues, greys, structured layouts, official look, subtle grid lines.''"
| "getStyleInstruction StyleCreativeArt = ascii ''Style: Bold colors, artistic shapes, dynamic composition. High energy.''"
| "getStyleInstruction StyleDarkMode = ascii ''Style: Dark background (slate/black), bright neon or white text, sleek and modern.''"
| "getStyleInstruction StyleNaturalFresh = ascii ''Style: Organic shapes, green and earth tones, soft lighting.''"

section \<open>services/geminiService.ts: generatePresentationOutline\<close>

definition isArticle :: "jsstring \<Rightarrow> UploadedFile option \<Rightarrow> bool" where
  "isArticle input attachedFile = (length input > 250 \<or> attachedFile \<noteq> None)"

definition baseInstruction :: "ComplexityLevel \<Rightarrow> VisualStyle \<Rightarrow> Language \<Rightarrow> nat \<Rightarrow> jsstring" where
  "baseInstruction lvl sty lang slideCount =
     ascii (''\<newline>''
       @ ''    You are an expert presentation designer.\<newline>''
       @ ''    Role: Create a structured outline for a '')
     @ showNat slideCount
     @ ascii (''-slide presentation.\<newline>''
       @ ''    \<newline>''
       @ ''    Audience Level: '')
     @ levelText lvl
     @ ascii (''\<newline>''
       @ ''    Language: '')
     @ languageText lang
     @ ascii '' (CRITICAL: The JSON content, title, and body MUST be in ''
     @ languageText lang
     @ ascii ('')\<newline>''
       @ ''    \<newline>''
       @ ''    Output Rules:\<newline>''
       @ ''    1. Create exactly '')
     @ showNat slideCount
     @ ascii ('' slides.\<newline>''
       @ ''    2. Slide 1 must be a Title Slide.\<newline>''
       @ ''    3. The final slide must be a Conclusion/Summary.\<newline>''
       @ ''    4. Return the output strictly as a JSON array of objects.\<newline>''
       @ ''    \<newline>''
       @ ''    JSON Format:\<newline>''
       @ ''    [\<newline>''
       @ ''      {\<newline>''
       @ ''        \"title\": \"Slide Title (In '')
     @ languageText lang
     @ ascii ('')\",\<newline>''
       @ ''        \"content\": \"Key bullet points for the slide text (max 30 words, In '')
     @ languageText lang
     @ ascii ('')\",\<newline>''
       @ ''        \"visualDescription\": \"Detailed prompt for an AI image generator to create this slide background and layout. Include placement of text placeholders. '')
     @ getStyleInstruction sty
     @ ascii (''\"\<newline>''
       @ ''      }\<newline>''
       @ ''    ]\<newline>''
       @ ''  '')"

definition articlePrompt :: "jsstring \<Rightarrow> jsstring" where
  "articlePrompt base =
     ascii (''\<newline>''
       @ ''      '')
     @ base
     @ ascii (''\<newline>''
       @ ''      \<newline>''
       @ ''      Analyze the provided content (text and/or attached document) to create the deck.\<newline>''
       @ ''    '')"

definition contentToAnalyze :: "jsstring \<Rightarrow> jsstring" where
  "contentToAnalyze input =
     ascii (''\<newline>''
       @ ''\<newline>''
       @ ''CONTENT TO ANALYZE:\<newline>''
       @ ''\"'')
     @ substring0 input 20000
     @ ascii ''\"''"

definition topicPrompt :: "jsstring \<Rightarrow> jsstring \<Rightarrow> jsstring" where
  "topicPrompt base input =
     ascii (''\<newline>''
       @ ''      '')
     @ base
     @ ascii (''\<newline>''
       @ ''      \<newline>''
       @ ''      Task: Research the topic: \"'')
     @ input
     @ ascii (''\" and create the deck.\<newline>''
       @ ''      **Use Google Search to find accurate facts.**\<newline>''
       @ ''    '')"

definition promptText ::
  "jsstring \<Rightarrow> UploadedFile option \<Rightarrow> ComplexityLevel \<Rightarrow> VisualStyle \<Rightarrow> Language \<Rightarrow> nat \<Rightarrow> jsstring" where
  "promptText input attachedFile lvl sty lang slideCount =
     (let base = baseInstruction lvl sty lang slideCount in
      if isArticle input attachedFile
      then articlePrompt base @ (if input \<noteq> [] then contentToAnalyze input else [])
      else topicPrompt base input)"

definition PDF_MIME :: jsstring where
  "PDF_MIME = ascii ''application/pdf''"

definition outlineRequest ::
  "jsstring \<Rightarrow> UploadedFile option \<Rightarrow> ComplexityLevel \<Rightarrow> VisualStyle \<Rightarrow> Language \<Rightarrow> nat
     \<Rightarrow> GenerateContentRequest" where
  "outlineRequest input attachedFile lvl sty lang slideCount =
     \<lparr>model = TEXT_MODEL,
      parts = [TextPart (promptText input attachedFile lvl sty lang slideCount)]
        @ (case attachedFile of
             None \<Rightarrow> []
           | Some f \<Rightarrow> if file_type f = PDF_MIME then [InlineDataPart PDF_MIME (file_data f)] else []),
      config = (if isArticle input attachedFile then EmptyConfig else ToolsConfig [GoogleSearch])\<rparr>"

text \<open>
  \<open>text.match(/\[[\s\S]*\]/)\<close>: the match starts at the first \<open>[\<close> and, the star being
  greedy over every character, ends at the last \<open>]\<close> after it; there is no match when
  no \<open>]\<close> follows the first \<open>[\<close>.
\<close>

definition LBRACKET :: "16 word" where
  "LBRACKET = 0x5B"

definition RBRACKET :: "16 word" where
  "RBRACKET = 0x5D"

definition jsonMatch :: "jsstring \<Rightarrow> jsstring option" where
  "jsonMatch txt =
     (let fromOpen = dropWhile (\<lambda>c. c \<noteq> LBRACKET) txt in
      if fromOpen = [] then None
      else let upToClose = rev (dropWhile (\<lambda>c. c \<noteq> RBRACKET) (rev (tl fromOpen))) in
        if upToClose = [] then None else Some (LBRACKET # upToClose))"

definition fallbackOutline :: "OutlineEntry list" where
  "fallbackOutline =
     [Entry \<lparr>title = [0x751F, 0x6210, 0x5931, 0x8D25],
             content = [0x65E0, 0x6CD5, 0x89E3, 0x6790, 0x5927, 0x7EB2, 0x7ED3, 0x6784, 0xFF0C,
                        0x8BF7, 0x91CD, 0x8BD5, 0x3002],
             visualDescription = ascii ''Generic professional background''\<rparr>]"

text \<open>
  \<open>JSON.parse\<close> is a parameter: \<open>parse s\<close> is the array that \<open>JSON.parse(s)\<close> returns, as
  a list of entries, and \<open>None\<close> when \<open>JSON.parse\<close> throws (a text that starts with a bracket
  parses to an array or not at all). Both a missing match and a throwing parse end in the
  \<open>catch\<close> block.
\<close>

definition parseOutline :: "(jsstring \<Rightarrow> OutlineEntry list option) \<Rightarrow> jsstring \<Rightarrow> OutlineEntry list" where
  "parseOutline parse txt =
     (case jsonMatch txt of
        Some m \<Rightarrow> (case parse m of Some outline \<Rightarrow> outline | None \<Rightarrow> fallbackOutline)
      | None \<Rightarrow> fallbackOutline)"

record OutlineResult =
  outline :: "OutlineEntry list"
  result_sources :: "SearchResultItem list"

text \<open>\<open>response.text || ""\<close>.\<close>

definition responseText :: "TextResponse \<Rightarrow> jsstring" where
  "responseText response = (case resp_text response of None \<Rightarrow> [] | Some t \<Rightarrow> t)"

definition readOutlineResponse ::
  "(jsstring \<Rightarrow> OutlineEntry list option) \<Rightarrow> TextResponse \<Rightarrow> OutlineResult" where
  "readOutlineResponse parse response =
     (let txt = responseText response
      in \<lparr>outline = parseOutline parse txt,
          result_sources = uniqueSources (extractSources (groundingChunks response))\<rparr>)"

text \<open>
  The function returns the requests it sent beside its result; the service is the function
  \<open>svc\<close> from the request to what the awaited call gives, a response or a throw.
\<close>

definition generatePresentationOutline ::
  "(GenerateContentRequest \<Rightarrow> thrown + TextResponse) \<Rightarrow> (jsstring \<Rightarrow> OutlineEntry list option)
     \<Rightarrow> jsstring \<Rightarrow> UploadedFile option \<Rightarrow> ComplexityLevel \<Rightarrow> VisualStyle \<Rightarrow> Language \<Rightarrow> nat
     \<Rightarrow> GenerateContentRequest list \<times> (thrown + OutlineResult)" where
  "generatePresentationOutline svc parse input attachedFile lvl sty lang slideCount =
     (let request = outlineRequest input attachedFile lvl sty lang slideCount in
      ([request],
       case svc request of
         Inl err \<Rightarrow> Inl err
       | Inr response \<Rightarrow> Inr (readOutlineResponse parse response)))"

section \<open>services/geminiService.ts: generateSlideImage\<close>

definition slidePrompt :: "SlideOutline \<Rightarrow> jsstring" where
  "slidePrompt slide =
     ascii (''\<newline>''
       @ ''    Create a high-quality 16:9 presentation slide image.\<newline>''
       @ ''    \<newline>''
       @ ''    TEXT ON SLIDE (Render this text clearly):\<newline>''
       @ ''    HEADLINE: '')
     @ title slide
     @ ascii (''\<newline>''
       @ ''    BODY COPY: '')
     @ content slide
     @ ascii (''\<newline>''
       @ ''    \<newline>''
       @ ''    DESIGN INSTRUCTIONS:\<newline>''
       @ ''    '')
     @ visualDescription slide
     @ ascii (''\<newline>''
       @ ''    \<newline>''
       @ ''    CRITICAL:\<newline>''
       @ ''    - The image MUST contain the text provided above.\<newline>''
       @ ''    - The text must be legible, large, and professional.\<newline>''
       @ ''    - Use a 16:9 aspect ratio layout.\<newline>''
       @ ''    - Do not include messy or gibberish text.\<newline>''
       @ ''  '')"

definition slideImageRequest :: "SlideOutline \<Rightarrow> GenerateContentRequest" where
  "slideImageRequest slide =
     \<lparr>model = IMAGE_MODEL, parts = [TextPart (slidePrompt slide)], config = ModalitiesConfig [IMAGE]\<rparr>"

text \<open>\<open>part && part.inlineData && part.inlineData.data\<close>: the payload when all three are truthy.\<close>

definition imagePayload :: "ImageResponse \<Rightarrow> jsstring option" where
  "imagePayload response =
     (case firstPart response of
        None \<Rightarrow> None
      | Some part \<Rightarrow>
          (case inlineData part of
             None \<Rightarrow> None
           | Some inl \<Rightarrow> if truthy (data inl) then data inl else None))"

definition renderFailure :: thrown where
  "renderFailure = Thrown (Some (ascii ''Failed to generate slide image''))"

text \<open>
  The prompt is built first, and it reads \<open>slide.title\<close>: on a \<open>null\<close> entry that read
  throws the engine's \<open>TypeError\<close>, whose message is the parameter \<open>nullMessage\<close>, before
  any request is sent.
\<close>

definition generateSlideImage ::
  "(GenerateContentRequest \<Rightarrow> thrown + ImageResponse) \<Rightarrow> jsstring \<Rightarrow> OutlineEntry
     \<Rightarrow> GenerateContentRequest list \<times> (thrown + jsstring)" where
  "generateSlideImage svc nullMessage slide =
     (case slide of
        NullEntry \<Rightarrow> ([], Inl (Thrown (Some nullMessage)))
      | Entry obj \<Rightarrow>
          (let request = slideImageRequest obj in
           ([request],
            case svc request of
              Inl err \<Rightarrow> Inl err
            | Inr response \<Rightarrow>
                (case imagePayload response of
                   Some d \<Rightarrow> Inr (ascii ''data:image/png;base64,'' @ d)
                 | None \<Rightarrow> Inl renderFailure))))"

section \<open>App.tsx: state\<close>

text \<open>
  The state hooks of \<open>App\<close> that the handlers read or write (the intro and dark-mode
  flags only steer rendering).
\<close>

record AppState =
  inputText :: jsstring
  complexityLevel :: ComplexityLevel
  visualStyle :: VisualStyle
  language :: Language
  slideCount :: nat
  uploadedFile :: "UploadedFile option"
  isLoading :: bool
  loadingMessage :: jsstring
  loadingStep :: nat
  error :: "jsstring option"
  presentation :: "Presentation option"
  hasApiKey :: bool
  checkingKey :: bool

definition initialState :: AppState where
  "initialState =
     \<lparr>inputText = [], complexityLevel = LevelProfessional, visualStyle = StyleModernMinimal,
      language = SimplifiedChinese, slideCount = 5, uploadedFile = None, isLoading = False,
      loadingMessage = [], loadingStep = 0, error = None, presentation = None,
      hasApiKey = False, checkingKey = True\<rparr>"

section \<open>App.tsx: the credential gate\<close>

text \<open>
  \<open>checkKey\<close>, run on mount. The gate is \<open>None\<close> when \<open>window.aistudio\<close> or its
  \<open>hasSelectedApiKey\<close> is missing, and otherwise what the awaited call gives.
\<close>

definition checkKey :: "(thrown + bool) option \<Rightarrow> AppState \<Rightarrow> AppState" where
  "checkKey gate st =
     (case gate of
        None \<Rightarrow> st\<lparr>hasApiKey := True, checkingKey := False\<rparr>
      | Some (Inr hasKey) \<Rightarrow> st\<lparr>hasApiKey := hasKey, checkingKey := False\<rparr>
      | Some (Inl err) \<Rightarrow> st\<lparr>checkingKey := False\<rparr>)"

text \<open>The render condition of the modal: \<open>!checkingKey && !hasApiKey && <KeySelectionModal />\<close>.\<close>

definition keySelectionModalShown :: "AppState \<Rightarrow> bool" where
  "keySelectionModalShown st = (\<not> checkingKey st \<and> \<not> hasApiKey st)"

section \<open>App.tsx: handleFileUpload\<close>

text \<open>
  The chosen file with what reading it gives: \<open>readAsDataURL\<close>, \<open>readAsText\<close>, and
  \<open>mammoth.extractRawText\<close> on the bytes (\<open>None\<close> when it throws). The \<open>onload\<close> callbacks
  are taken to run within the step. Nothing in the \<open>try\<close> block throws, so its \<open>catch\<close> has
  no branch here; the \<open>finally\<close> clears the file input element, which is no part of the
  state.
\<close>

record FileInput =
  upload_name :: jsstring
  upload_type :: jsstring
  asDataURL :: jsstring
  asText :: jsstring
  rawText :: "jsstring option"

definition COMMA :: "16 word" where
  "COMMA = 0x2C"

text \<open>\<open>s.split(',')[1]\<close>: the piece between the first comma and the next, absent without a comma.\<close>

definition splitComma1 :: "jsstring \<Rightarrow> jsstring option" where
  "splitComma1 s =
     (let fromComma = dropWhile (\<lambda>c. c \<noteq> COMMA) s in
      if fromComma = [] then None else Some (takeWhile (\<lambda>c. c \<noteq> COMMA) (tl fromComma)))"

definition DOCX_MIME :: jsstring where
  "DOCX_MIME = ascii ''application/vnd.openxmlformats-officedocument.wordprocessingml.document''"

definition TEXT_MIME :: jsstring where
  "TEXT_MIME = ascii ''text/plain''"

text \<open>\<open>prev + (prev ? '\n\n' : '') + `[... ${file.name}]:\n` + text\<close>.\<close>

definition appendContent :: "jsstring \<Rightarrow> jsstring \<Rightarrow> jsstring \<Rightarrow> jsstring" where
  "appendContent prev fname txt =
     prev @ (if prev \<noteq> [] then ascii ''\<newline>\<newline>'' else [])
       @ (ascii ''['' @ [0x5185, 0x5BB9, 0x6765, 0x81EA] @ ascii '' '' @ fname @ ascii '']:\<newline>'')
       @ txt"

definition extractionFailedMessage :: jsstring where
  "extractionFailedMessage =
     [0x65E0, 0x6CD5, 0x63D0, 0x53D6] @ ascii '' Word '' @ [0x6587, 0x6863, 0x5185, 0x5BB9]"

definition unsupportedTypeMessage :: jsstring where
  "unsupportedTypeMessage =
     [0x4E0D, 0x652F, 0x6301, 0x7684, 0x6587, 0x4EF6, 0x7C7B, 0x578B, 0x3002, 0x8BF7, 0x4E0A,
      0x4F20] @ ascii '' PDF, DOCX, '' @ [0x6216] @ ascii '' TXT'' @ [0x3002]"

definition handleFileUpload :: "FileInput option \<Rightarrow> AppState \<Rightarrow> AppState" where
  "handleFileUpload chosen st =
     (case chosen of
        None \<Rightarrow> st
      | Some file \<Rightarrow>
          (let st1 = st\<lparr>uploadedFile := None, error := None\<rparr> in
           if upload_type file = PDF_MIME then
             st1\<lparr>uploadedFile := Some \<lparr>file_name = upload_name file, file_type = upload_type file,
                                       file_data = splitComma1 (asDataURL file)\<rparr>\<rparr>
           else if js_endsWith (upload_name file) (ascii ''.docx'') \<or> upload_type file = DOCX_MIME then
             (case rawText file of
                Some extracted \<Rightarrow>
                  st1\<lparr>inputText := appendContent (inputText st1) (upload_name file) extracted\<rparr>
              | None \<Rightarrow> st1\<lparr>error := Some extractionFailedMessage\<rparr>)
           else if upload_type file = TEXT_MIME then
             st1\<lparr>inputText := appendContent (inputText st1) (upload_name file) (asText file)\<rparr>
           else st1\<lparr>error := Some unsupportedTypeMessage\<rparr>))"

section \<open>App.tsx: handleGenerate\<close>

text \<open>
  What the run meets outside the program: the two services (the image service by the
  index of the entry rendered, since equal requests may be answered differently), the
  order in which the render promises settle, \<open>JSON.parse\<close>, the messages the engine gives
  the \<open>TypeError\<close> of reading a property of \<open>undefined\<close> and of \<open>null\<close>, and the two
  readings of the clock.
\<close>

record Env =
  textService :: "GenerateContentRequest \<Rightarrow> thrown + TextResponse"
  imageService :: "nat \<Rightarrow> GenerateContentRequest \<Rightarrow> thrown + ImageResponse"
  settleOrder :: "nat list"
  jsonParse :: "jsstring \<Rightarrow> OutlineEntry list option"
  typeErrorMessage :: jsstring
  nullErrorMessage :: jsstring
  nowId :: nat
  nowStamp :: nat

datatype ServiceCall = OutlineCall GenerateContentRequest | RenderCall GenerateContentRequest

text \<open>\<open>String.prototype.trim\<close> strips white space and line terminators at both ends.\<close>

definition isWhiteSpace :: "16 word \<Rightarrow> bool" where
  "isWhiteSpace c =
     (c = 0x09 \<or> c = 0x0A \<or> c = 0x0B \<or> c = 0x0C \<or> c = 0x0D \<or> c = 0x20 \<or> c = 0xA0
      \<or> c = 0x1680 \<or> (0x2000 \<le> c \<and> c \<le> 0x200A) \<or> c = 0x2028 \<or> c = 0x2029
      \<or> c = 0x202F \<or> c = 0x205F \<or> c = 0x3000 \<or> c = 0xFEFF)"

definition js_trim :: "jsstring \<Rightarrow> jsstring" where
  "js_trim s = rev (dropWhile isWhiteSpace (rev (dropWhile isWhiteSpace s)))"

definition emptyInputMessage :: jsstring where
  "emptyInputMessage =
     [0x8BF7, 0x8F93, 0x5165, 0x4E3B, 0x9898, 0xFF0C, 0x7C98, 0x8D34, 0x6587, 0x672C, 0xFF0C,
      0x6216, 0x4E0A, 0x4F20, 0x6587, 0x4EF6, 0x3002]"

definition analysingMessage :: "nat \<Rightarrow> jsstring" where
  "analysingMessage n =
     [0x6B63, 0x5728, 0x5206, 0x6790, 0x5185, 0x5BB9, 0x5E76, 0x6784, 0x5EFA] @ ascii '' ''
       @ showNat n @ ascii '' '' @ [0x9875, 0x5927, 0x7EB2] @ ascii ''...''"

definition drawingMessage :: "nat \<Rightarrow> jsstring" where
  "drawingMessage n =
     [0x6B63, 0x5728, 0x5E76, 0x884C, 0x7ED8, 0x5236] @ ascii '' ''
       @ showNat n @ ascii '' '' @ [0x9875, 0x5E7B, 0x706F, 0x7247] @ ascii ''...''"

definition credentialMessage :: jsstring where
  "credentialMessage =
     [0x8BBF, 0x95EE, 0x88AB, 0x62D2, 0x7EDD, 0x3002, 0x8BF7, 0x9009, 0x62E9, 0x542F, 0x7528,
      0x4E86, 0x8BA1, 0x8D39, 0x7684] @ ascii '' Google Cloud '' @ [0x9879, 0x76EE]
       @ ascii '' API '' @ [0x5BC6, 0x94A5, 0x3002]"

definition genericFailureMessage :: jsstring where
  "genericFailureMessage =
     [0x751F, 0x6210, 0x5931, 0x8D25, 0x3002, 0x8BF7, 0x5C1D, 0x8BD5, 0x7F29, 0x77ED, 0x6587,
      0x672C, 0x6216, 0x66F4, 0x6362, 0x4E3B, 0x9898, 0x3002]"

text \<open>
  The callback of \<open>outline.map\<close>: it calls \<open>generateSlideImage\<close> at once, so its request is
  sent when the callback is called, and its promise rejects with what the render throws.
\<close>

definition slideTask ::
  "Env \<Rightarrow> nat \<Rightarrow> OutlineEntry \<Rightarrow> GenerateContentRequest list \<times> (thrown + Slide)" where
  "slideTask env index slideOutline =
     (let (requests, rendered) =
            generateSlideImage (imageService env index) (nullErrorMessage env) slideOutline in
      (requests,
       case rendered of
         Inl err \<Rightarrow> Inl err
       | Inr base64 \<Rightarrow>
           (case slideOutline of
              NullEntry \<Rightarrow> Inl (Thrown (Some (nullErrorMessage env)))
            | Entry obj \<Rightarrow>
                Inr \<lparr>slide_id = ascii ''slide-'' @ showNat index, slide_data = base64,
                     slide_title = title obj, speakerNotes = content obj\<rparr>)))"

text \<open>\<open>outline.map(async (slideOutline, index) => ...)\<close>: one task per entry, in index order.\<close>

definition slidePromises ::
  "Env \<Rightarrow> OutlineEntry list \<Rightarrow> (GenerateContentRequest list \<times> (thrown + Slide)) list" where
  "slidePromises env entries =
     map (\<lambda>(index, slideOutline). slideTask env index slideOutline) (List.enumerate 0 entries)"

text \<open>
  \<open>Promise.all\<close> rejects with the reason of the promise that rejects first in time and
  otherwise fulfils with the values in index order. \<open>order\<close> lists the indexes in the order
  in which the promises settle; promises it does not list settle after the listed ones, in
  index order. Every promise settles.
\<close>

fun firstRejection :: "(thrown + 'a) list \<Rightarrow> thrown option" where
  "firstRejection [] = None"
| "firstRejection (Inl err # rs) = Some err"
| "firstRejection (Inr v # rs) = firstRejection rs"

fun fulfilled :: "(thrown + 'a) list \<Rightarrow> 'a list" where
  "fulfilled [] = []"
| "fulfilled (Inl err # rs) = fulfilled rs"
| "fulfilled (Inr v # rs) = v # fulfilled rs"

definition promiseAll :: "nat list \<Rightarrow> (thrown + 'a) list \<Rightarrow> thrown + 'a list" where
  "promiseAll order results =
     (case firstRejection (map (\<lambda>i. results ! i) (filter (\<lambda>i. i < length results) order) @ results) of
        Some err \<Rightarrow> Inl err
      | None \<Rightarrow> Inr (fulfilled results))"

text \<open>
  The \<open>try\<close> block: what was thrown, if anything, the state as the block left it and the
  calls it sent to the services.
\<close>

definition tryBlock :: "Env \<Rightarrow> AppState \<Rightarrow> thrown option \<times> AppState \<times> ServiceCall list" where
  "tryBlock env st =
     (let (requests, answer) =
            generatePresentationOutline (textService env) (jsonParse env) (inputText st)
              (uploadedFile st) (complexityLevel st) (visualStyle st) (language st) (slideCount st);
          calls1 = map OutlineCall requests
      in case answer of
           Inl err \<Rightarrow> (Some err, st, calls1)
         | Inr res \<Rightarrow>
             (let st2 = st\<lparr>loadingStep := 2, loadingMessage := drawingMessage (length (outline res))\<rparr>;
                  tasks = slidePromises env (outline res);
                  calls2 = calls1 @ map RenderCall (concat (map fst tasks))
              in case promiseAll (settleOrder env) (map snd tasks) of
                   Inl err \<Rightarrow> (Some err, st2, calls2)
                 | Inr rendered \<Rightarrow>
                     (case outline res of
                        [] \<Rightarrow> (Some (Thrown (Some (typeErrorMessage env))), st2, calls2)
                      | NullEntry # _ \<Rightarrow> (Some (Thrown (Some (nullErrorMessage env))), st2, calls2)
                      | Entry entry0 # _ \<Rightarrow>
                          (None,
                           st2\<lparr>presentation :=
                                  Some \<lparr>pres_id = showNat (nowId env),
                                        topic = (if title entry0 \<noteq> [] then title entry0
                                                 else ascii ''Generated Presentation''),
                                        timestamp = nowStamp env,
                                        slides = rendered,
                                        level = complexityLevel st2,
                                        style = visualStyle st2,
                                        sources = result_sources res\<rparr>,
                                uploadedFile := None\<rparr>,
                           calls2))))"

text \<open>
  The test of the \<open>catch\<close> block: \<open>err.message && (err.message.includes(...) || ...)\<close>.
\<close>

definition isCredentialError :: "thrown \<Rightarrow> bool" where
  "isCredentialError err =
     (case message err of
        None \<Rightarrow> False
      | Some m \<Rightarrow>
          m \<noteq> [] \<and> (js_includes m (ascii ''Requested entity was not found'')
                     \<or> js_includes m (ascii ''404'') \<or> js_includes m (ascii ''403'')))"

definition catchBlock :: "thrown \<Rightarrow> AppState \<Rightarrow> AppState" where
  "catchBlock err st =
     (if isCredentialError err
      then st\<lparr>error := Some credentialMessage, hasApiKey := False\<rparr>
      else st\<lparr>error := Some genericFailureMessage\<rparr>)"

definition finallyBlock :: "AppState \<Rightarrow> AppState" where
  "finallyBlock st = st\<lparr>isLoading := False, loadingStep := 0\<rparr>"

definition handleGenerate :: "Env \<Rightarrow> AppState \<Rightarrow> AppState \<times> ServiceCall list" where
  "handleGenerate env st =
     (if isLoading st then (st, [])
      else if js_trim (inputText st) = [] \<and> uploadedFile st = None
      then (st\<lparr>error := Some emptyInputMessage\<rparr>, [])
      else
        (let st1 = st\<lparr>isLoading := True, error := None, loadingStep := 1,
                       loadingMessage := analysingMessage (slideCount st)\<rparr>;
             (raised, st2, calls) = tryBlock env st1
         in (finallyBlock (case raised of None \<Rightarrow> st2 | Some err \<Rightarrow> catchBlock err st2), calls)))"

section \<open>components/Infographic.tsx: the exports of SlideViewer\<close>

text \<open>
  The component with its \<open>presentation\<close> prop and its state hooks.
\<close>

datatype ViewMode = Carousel | Grid

record SlideViewer =
  presentation_prop :: Presentation
  currentSlideIndex :: nat
  isFullscreen :: bool
  viewMode :: ViewMode
  isExporting :: bool














text \<open>
  The PptxGenJS package as the code drives it: \<open>addSlide()\<close> appends an empty slide, and
  \<open>addImage\<close> and \<open>addNotes\<close> append an object to that slide.
\<close>

record PptImage =
  ppt_data :: jsstring
  ppt_x :: nat
  ppt_y :: nat
  ppt_w :: jsstring
  ppt_h :: jsstring

datatype SlideObject = ImageObject PptImage | NotesObject jsstring

record Pptx =
  layout :: jsstring
  pptSlides :: "SlideObject list list"











section \<open>Reading a request\<close>

text \<open>The search-grounding tool is enabled when the config lists it among its tools.\<close>

definition searchEnabled :: "GenerateContentRequest \<Rightarrow> bool" where
  "searchEnabled request = (case config request of ToolsConfig ts \<Rightarrow> GoogleSearch \<in> set ts | _ \<Rightarrow> False)"

text \<open>The prompt of a request is the text of its first part.\<close>

definition requestPrompt :: "GenerateContentRequest \<Rightarrow> jsstring" where
  "requestPrompt request = (case parts request of TextPart t # _ \<Rightarrow> t | _ \<Rightarrow> [])"

section \<open>Reading a run of handleGenerate\<close>

text \<open>A submission is accepted when it passes the two guards that open \<open>handleGenerate\<close>.\<close>

definition accepted :: "AppState \<Rightarrow> bool" where
  "accepted st = (\<not> isLoading st \<and> \<not> (js_trim (inputText st) = [] \<and> uploadedFile st = None))"

text \<open>The outline request of a submission, and the state in which the \<open>try\<close> block starts.\<close>

definition submittedRequest :: "AppState \<Rightarrow> GenerateContentRequest" where
  "submittedRequest st =
     outlineRequest (inputText st) (uploadedFile st) (complexityLevel st) (visualStyle st)
       (language st) (slideCount st)"

definition started :: "AppState \<Rightarrow> AppState" where
  "started st = st\<lparr>isLoading := True, error := None, loadingStep := 1,
                    loadingMessage := analysingMessage (slideCount st)\<rparr>"

text \<open>The state when the renders are under way.\<close>

definition rendering :: "nat \<Rightarrow> AppState \<Rightarrow> AppState" where
  "rendering n st = (started st)\<lparr>loadingStep := 2, loadingMessage := drawingMessage n\<rparr>"

text \<open>What the render of each outline entry gives, by index.\<close>

definition renderResults :: "Env \<Rightarrow> OutlineEntry list \<Rightarrow> (thrown + Slide) list" where
  "renderResults env entries = map snd (slidePromises env entries)"

text \<open>
  A render succeeds when the entry is not \<open>null\<close> and the image service answers its request
  with an image payload.
\<close>

definition renderSucceeds :: "Env \<Rightarrow> nat \<Rightarrow> OutlineEntry \<Rightarrow> bool" where
  "renderSucceeds env index slideOutline =
     (case slideOutline of
        NullEntry \<Rightarrow> False
      | Entry obj \<Rightarrow>
          (case imageService env index (slideImageRequest obj) of
             Inl err \<Rightarrow> False
           | Inr response \<Rightarrow> imagePayload response \<noteq> None))"

text \<open>The slide built from an outline entry, its position and the rendered image.\<close>

definition slideOf :: "nat \<Rightarrow> SlideOutline \<Rightarrow> jsstring \<Rightarrow> Slide" where
  "slideOf index slideOutline base64 =
     \<lparr>slide_id = ascii ''slide-'' @ showNat index, slide_data = base64,
      slide_title = title slideOutline, speakerNotes = content slideOutline\<rparr>"

text \<open>The render requests of the entries that are not \<open>null\<close>, in outline order.\<close>

fun entryRequests :: "OutlineEntry list \<Rightarrow> GenerateContentRequest list" where
  "entryRequests [] = []"
| "entryRequests (NullEntry # entries) = entryRequests entries"
| "entryRequests (Entry obj # entries) = slideImageRequest obj # entryRequests entries"

text \<open>The calls of a run whose outline request is answered with the given entries.\<close>

definition allCalls :: "AppState \<Rightarrow> OutlineEntry list \<Rightarrow> ServiceCall list" where
  "allCalls st entries =
     OutlineCall (submittedRequest st) # map RenderCall (entryRequests entries)"

text \<open>The calls that are render requests.\<close>

fun renderCalls :: "ServiceCall list \<Rightarrow> GenerateContentRequest list" where
  "renderCalls [] = []"
| "renderCalls (RenderCall r # cs) = r # renderCalls cs"
| "renderCalls (OutlineCall r # cs) = renderCalls cs"

fun outlineCalls :: "ServiceCall list \<Rightarrow> GenerateContentRequest list" where
  "outlineCalls [] = []"
| "outlineCalls (OutlineCall r # cs) = r # outlineCalls cs"
| "outlineCalls (RenderCall r # cs) = outlineCalls cs"

text \<open>The data URL a successful render gives.\<close>

definition renderedImage :: "Env \<Rightarrow> nat \<Rightarrow> SlideOutline \<Rightarrow> jsstring" where
  "renderedImage env index slideOutline =
     (case imageService env index (slideImageRequest slideOutline) of
        Inl err \<Rightarrow> []
      | Inr response \<Rightarrow>
          (case imagePayload response of
             None \<Rightarrow> []
           | Some d \<Rightarrow> ascii ''data:image/png;base64,'' @ d))"

text \<open>The message of what was thrown contains a text; a missing message contains none.\<close>

definition messageContains :: "thrown \<Rightarrow> jsstring \<Rightarrow> bool" where
  "messageContains err sub = (case message err of None \<Rightarrow> False | Some m \<Rightarrow> js_includes m sub)"

definition credentialShaped :: "thrown \<Rightarrow> bool" where
  "credentialShaped err =
     (messageContains err (ascii ''Requested entity was not found'')
      \<or> messageContains err (ascii ''404'') \<or> messageContains err (ascii ''403''))"

text \<open>
  The component reads \<open>slides[currentSlideIndex].data\<close> when it renders the carousel, the
  view it starts in, and throws when there is no such slide: in every state in which an
  export can be asked for, the current slide exists.
\<close>

definition displayable :: "SlideViewer \<Rightarrow> bool" where
  "displayable v = (currentSlideIndex v < length (slides (presentation_prop v)))"

section \<open>Example values\<close>

text \<open>
  A submission of the topic \<open>AI\<close>; two outline entries and the JSON text of the two; the
  JSON text of an array whose first element is \<open>null\<close>; answers of the text model that hold
  these texts; a parser that gives what \<open>JSON.parse\<close> gives on the three array texts used
  (the third is the empty array) and fails elsewhere, as \<open>JSON.parse\<close> does on a text that is
  not JSON; the base64 text of a PNG image of one pixel; image responses with and without
  a payload; and the messages V8 gives the two \<open>TypeError\<close>s.
\<close>

definition exampleState :: AppState where
  "exampleState = initialState\<lparr>inputText := ascii ''AI'', hasApiKey := True, checkingKey := False\<rparr>"

text \<open>
  The state in which the key check has run on a gate that reports no selected key, and the
  topic \<open>AI\<close> is in the text area.
\<close>

definition gatedState :: AppState where
  "gatedState = checkKey (Some (Inr False)) (initialState\<lparr>inputText := ascii ''AI''\<rparr>)"

definition exampleEntries :: "OutlineEntry list" where
  "exampleEntries =
     [Entry \<lparr>title = ascii ''Intro'', content = ascii ''Hello'', visualDescription = ascii ''Blue''\<rparr>,
      Entry \<lparr>title = ascii ''End'', content = ascii ''Bye'', visualDescription = ascii ''Red''\<rparr>]"

definition exampleJson :: jsstring where
  "exampleJson =
     ascii (''[{\"title\":\"Intro\",\"content\":\"Hello\",\"visualDescription\":\"Blue\"},''
       @ ''{\"title\":\"End\",\"content\":\"Bye\",\"visualDescription\":\"Red\"}]'')"

definition exampleJsonWithNull :: jsstring where
  "exampleJsonWithNull =
     ascii ''[null,{\"title\":\"End\",\"content\":\"Bye\",\"visualDescription\":\"Red\"}]''"

definition exampleAnswer :: jsstring where
  "exampleAnswer = ascii ''Here is the deck: '' @ exampleJson @ ascii '' Enjoy.''"

definition exampleAnswerWithNull :: jsstring where
  "exampleAnswerWithNull = ascii ''Here is the deck: '' @ exampleJsonWithNull"

definition exampleParse :: "jsstring \<Rightarrow> OutlineEntry list option" where
  "exampleParse s =
     (if s = exampleJson then Some exampleEntries
      else if s = exampleJsonWithNull
      then Some [NullEntry,
                 Entry \<lparr>title = ascii ''End'', content = ascii ''Bye'', visualDescription = ascii ''Red''\<rparr>]
      else if s = ascii ''[]'' then Some []
      else None)"

definition onePixelPng :: jsstring where
  "onePixelPng =
     ascii (''iVBORw0KGgoAAAANSUhEUgAAAAEAAAABCAYAAAAfFcSJAAAADUlEQVR42mNkYPhf''
       @ ''DwAChwGA60e6kgAAAABJRU5ErkJggg=='')"

definition imageWithPayload :: "thrown + ImageResponse" where
  "imageWithPayload = Inr \<lparr>firstPart = Some \<lparr>inlineData = Some \<lparr>data = Some onePixelPng\<rparr>\<rparr>\<rparr>"

definition imageWithoutPayload :: "thrown + ImageResponse" where
  "imageWithoutPayload = Inr \<lparr>firstPart = None\<rparr>"

definition v8TypeErrorMessage :: jsstring where
  "v8TypeErrorMessage =
     ascii ''Cannot read properties of undefined (reading '' @ [0x27] @ ascii ''title'' @ [0x27]
       @ ascii '')''"

definition v8NullErrorMessage :: jsstring where
  "v8NullErrorMessage =
     ascii ''Cannot read properties of null (reading '' @ [0x27] @ ascii ''title'' @ [0x27]
       @ ascii '')''"

definition exampleEnv :: "(thrown + jsstring) \<Rightarrow> (nat \<Rightarrow> thrown + ImageResponse) \<Rightarrow> nat list \<Rightarrow> Env" where
  "exampleEnv answer images order =
     \<lparr>textService = (\<lambda>request. case answer of
                                   Inl err \<Rightarrow> Inl err
                                 | Inr txt \<Rightarrow> Inr \<lparr>resp_text = Some txt, groundingChunks = None\<rparr>),
      imageService = (\<lambda>index request. images index),
      settleOrder = order,
      jsonParse = exampleParse,
      typeErrorMessage = v8TypeErrorMessage,
      nullErrorMessage = v8NullErrorMessage,
      nowId = 1700000000000,
      nowStamp = 1700000000001\<rparr>"


definition onePixelUrl :: jsstring where
  "onePixelUrl = ascii ''data:image/png;base64,'' @ onePixelPng"



section \<open>Citations are deduplicated by URL\<close>
















section \<open>The mode of the outline request\<close>

lemma js_includes_iff: "js_includes s sub \<longleftrightarrow> (\<exists>pre post. s = pre @ sub @ post)"
proof (induction s)
  case Nil
  show ?case by auto
next
  case (Cons c cs)
  have pfx: "take (length sub) (c # cs) = sub \<longleftrightarrow> (\<exists>post. c # cs = sub @ post)"
    by (metis append_eq_conv_conj append_take_drop_id)
  show ?case
  proof
    assume "js_includes (c # cs) sub"
    then consider "take (length sub) (c # cs) = sub" | "js_includes cs sub" by auto
    then show "\<exists>pre post. c # cs = pre @ sub @ post"
    proof cases
      case 1
      with pfx obtain post where "c # cs = sub @ post" by blast
      then have "c # cs = [] @ sub @ post" by simp
      then show ?thesis by blast
    next
      case 2
      with Cons.IH obtain pre post where "cs = pre @ sub @ post" by blast
      then have "c # cs = (c # pre) @ sub @ post" by simp
      then show ?thesis by blast
    qed
  next
    assume "\<exists>pre post. c # cs = pre @ sub @ post"
    then obtain pre post where eq: "c # cs = pre @ sub @ post" by blast
    show "js_includes (c # cs) sub"
    proof (cases pre)
      case Nil
      with eq have "\<exists>post. c # cs = sub @ post" by auto
      with pfx have "take (length sub) (c # cs) = sub" by blast
      then show ?thesis by simp
    next
      case (Cons p pre')
      with eq have "cs = pre' @ sub @ post" by simp
      with Cons.IH show ?thesis by auto
    qed
  qed
qed

text \<open>
  C7. The outline request is in article-analysis mode exactly when a document is attached
  or the input is longer than 250 code units. In that mode the search tool is not enabled
  and a non-empty input is passed verbatim, cut to its first 20000 code units, as the
  quoted content that ends the prompt. Otherwise the search tool is enabled and the prompt
  asks to research the input itself, quoted in full.
\<close>

theorem mode_selection:
  "(isArticle input attachedFile \<longleftrightarrow> attachedFile \<noteq> None \<or> 250 < length input)
   \<and> (isArticle input attachedFile \<longrightarrow>
        config (outlineRequest input attachedFile lvl sty lang n) = EmptyConfig
        \<and> \<not> searchEnabled (outlineRequest input attachedFile lvl sty lang n)
        \<and> (input \<noteq> [] \<longrightarrow>
             (\<exists>pre. requestPrompt (outlineRequest input attachedFile lvl sty lang n)
                = pre @ ascii ''CONTENT TO ANALYZE:\<newline>\"'' @ take 20000 input @ ascii ''\"''))
        \<and> length (take 20000 input) \<le> 20000
        \<and> (length input \<le> 20000 \<longrightarrow> take 20000 input = input))
   \<and> (\<not> isArticle input attachedFile \<longrightarrow>
        config (outlineRequest input attachedFile lvl sty lang n) = ToolsConfig [GoogleSearch]
        \<and> searchEnabled (outlineRequest input attachedFile lvl sty lang n)
        \<and> (\<exists>pre post. requestPrompt (outlineRequest input attachedFile lvl sty lang n)
              = pre @ ascii ''Task: Research the topic: \"'' @ input @ ascii ''\"'' @ post
              \<and> js_includes post (ascii ''Use Google Search'')))"
proof -
  have prompt: "requestPrompt (outlineRequest input attachedFile lvl sty lang n)
      = promptText input attachedFile lvl sty lang n"
    by (simp add: requestPrompt_def outlineRequest_def)
  have article: "\<exists>pre. promptText input attachedFile lvl sty lang n
        = pre @ ascii ''CONTENT TO ANALYZE:\<newline>\"'' @ take 20000 input @ ascii ''\"''"
    if "isArticle input attachedFile" "input \<noteq> []"
  proof -
    have "promptText input attachedFile lvl sty lang n
        = (articlePrompt (baseInstruction lvl sty lang n) @ ascii ''\<newline>\<newline>'')
          @ ascii ''CONTENT TO ANALYZE:\<newline>\"'' @ take 20000 input @ ascii ''\"''"
      using that by (simp add: promptText_def contentToAnalyze_def substring0_def ascii_def)
    then show ?thesis by blast
  qed
  have topic: "\<exists>pre post. promptText input attachedFile lvl sty lang n
        = pre @ ascii ''Task: Research the topic: \"'' @ input @ ascii ''\"'' @ post
        \<and> js_includes post (ascii ''Use Google Search'')"
    if "\<not> isArticle input attachedFile"
  proof -
    let ?pre = "ascii (''\<newline>'' @ ''      '') @ baseInstruction lvl sty lang n
        @ ascii (''\<newline>'' @ ''      \<newline>'' @ ''      '')"
    let ?post = "ascii ('' and create the deck.\<newline>''
       @ ''      **Use Google Search to find accurate facts.**\<newline>''
       @ ''    '')"
    have "promptText input attachedFile lvl sty lang n
        = ?pre @ ascii ''Task: Research the topic: \"'' @ input @ ascii ''\"'' @ ?post"
      using that by (simp add: promptText_def topicPrompt_def ascii_def)
    moreover have "js_includes ?post (ascii ''Use Google Search'')"
      unfolding js_includes_iff
      by (rule exI [of _ "ascii ('' and create the deck.\<newline>'' @ ''      **'')"],
          rule exI [of _ "ascii ('' to find accurate facts.**\<newline>'' @ ''    '')"])
         (simp add: ascii_def)
    ultimately show ?thesis by blast
  qed
  show ?thesis
    using article topic
    by (simp add: prompt) (simp add: isArticle_def outlineRequest_def searchEnabled_def disj_commute)
qed


theorem mode_selection_witness:
  "isArticle (replicate 251 0x61) None
   \<and> \<not> searchEnabled (outlineRequest (replicate 251 0x61) None LevelProfessional StyleModernMinimal SimplifiedChinese 5)
   \<and> \<not> isArticle (replicate 250 0x61) None
   \<and> searchEnabled (outlineRequest (replicate 250 0x61) None LevelProfessional StyleModernMinimal SimplifiedChinese 5)
   \<and> isArticle (ascii ''AI'') (Some \<lparr>file_name = ascii ''a.pdf'', file_type = PDF_MIME, file_data = Some (ascii ''JVBERi0='')\<rparr>)
   \<and> config (outlineRequest (ascii ''AI'') (Some \<lparr>file_name = ascii ''a.pdf'', file_type = PDF_MIME, file_data = Some (ascii ''JVBERi0='')\<rparr>)
         LevelProfessional StyleModernMinimal SimplifiedChinese 5) = EmptyConfig
   \<and> config (outlineRequest (ascii ''AI'') None LevelProfessional StyleModernMinimal SimplifiedChinese 5)
       = ToolsConfig [GoogleSearch]"
  using mode_selection [of "replicate 251 0x61" None LevelProfessional StyleModernMinimal SimplifiedChinese 5]
    mode_selection [of "replicate 250 0x61" None LevelProfessional StyleModernMinimal SimplifiedChinese 5]
    mode_selection [of "ascii ''AI''" "Some \<lparr>file_name = ascii ''a.pdf'', file_type = PDF_MIME, file_data = Some (ascii ''JVBERi0='')\<rparr>"
       LevelProfessional StyleModernMinimal SimplifiedChinese 5]
    mode_selection [of "ascii ''AI''" None LevelProfessional StyleModernMinimal SimplifiedChinese 5]
  by (simp add: ascii_def)

section \<open>Runs of handleGenerate\<close>

text \<open>A task sends the request of its entry, and none when the entry is \<open>null\<close>.\<close>

lemma fst_slideTask: "fst (slideTask env i entry) = entryRequests [entry]"
  by (cases entry) (simp_all add: slideTask_def generateSlideImage_def Let_def)

lemma enumerate_requests:
  "concat (map fst (map (\<lambda>(index, slideOutline). slideTask env index slideOutline) (List.enumerate k entries)))
     = entryRequests entries"
proof (induction entries arbitrary: k)
  case Nil
  show ?case by simp
next
  case (Cons entry entries)
  then show ?case by (cases entry) (simp_all add: fst_slideTask)
qed

lemma task_requests: "concat (map fst (slidePromises env entries)) = entryRequests entries"
  unfolding slidePromises_def by (rule enumerate_requests)

lemma entryRequests_objects:
  "NullEntry \<notin> set entries \<Longrightarrow> length (entryRequests entries) = length entries"
  by (induction entries rule: entryRequests.induct) simp_all

lemma entryRequests_with_null:
  "NullEntry \<in> set entries \<Longrightarrow> length (entryRequests entries) < length entries"
proof (induction entries rule: entryRequests.induct)
  case 1
  then show ?case by simp
next
  case (2 entries)
  have "length (entryRequests entries) \<le> length entries"
    by (induction entries rule: entryRequests.induct) simp_all
  then show ?case by simp
next
  case (3 obj entries)
  then show ?case by simp
qed

lemma length_renderResults: "length (renderResults env entries) = length entries"
  by (simp add: renderResults_def slidePromises_def)

lemma nth_renderResults:
  "i < length entries \<Longrightarrow> renderResults env entries ! i = snd (slideTask env i (entries ! i))"
  by (simp add: renderResults_def slidePromises_def nth_enumerate_eq)

lemma tryBlock_outline_throws:
  "textService env (submittedRequest st) = Inl err \<Longrightarrow>
   tryBlock env st = (Some err, st, [OutlineCall (submittedRequest st)])"
  by (simp add: tryBlock_def generatePresentationOutline_def submittedRequest_def Let_def)

lemma tryBlock_outline_answers:
  assumes "textService env (submittedRequest st) = Inr response"
  shows "tryBlock env st =
     (let res = readOutlineResponse (jsonParse env) response;
          st2 = st\<lparr>loadingStep := 2, loadingMessage := drawingMessage (length (outline res))\<rparr>;
          calls = allCalls st (outline res)
      in case promiseAll (settleOrder env) (renderResults env (outline res)) of
           Inl err \<Rightarrow> (Some err, st2, calls)
         | Inr rendered \<Rightarrow>
             (case outline res of
                [] \<Rightarrow> (Some (Thrown (Some (typeErrorMessage env))), st2, calls)
              | NullEntry # _ \<Rightarrow> (Some (Thrown (Some (nullErrorMessage env))), st2, calls)
              | Entry entry0 # _ \<Rightarrow>
                  (None,
                   st2\<lparr>presentation :=
                          Some \<lparr>pres_id = showNat (nowId env),
                                topic = (if title entry0 \<noteq> [] then title entry0
                                         else ascii ''Generated Presentation''),
                                timestamp = nowStamp env,
                                slides = rendered,
                                level = complexityLevel st,
                                style = visualStyle st,
                                sources = result_sources res\<rparr>,
                        uploadedFile := None\<rparr>,
                   calls)))"
proof -
  have req: "outlineRequest (inputText st) (uploadedFile st) (complexityLevel st) (visualStyle st)
       (language st) (slideCount st) = submittedRequest st"
    by (simp add: submittedRequest_def)
  show ?thesis
    unfolding tryBlock_def generatePresentationOutline_def req
    by (simp add: assms Let_def task_requests allCalls_def renderResults_def comp_def
          split: sum.split list.split OutlineEntry.split)
qed


lemma firstRejection_append:
  "firstRejection (xs @ ys) = (case firstRejection xs of Some e \<Rightarrow> Some e | None \<Rightarrow> firstRejection ys)"
  by (induction xs rule: firstRejection.induct) simp_all

lemma firstRejection_None_iff: "firstRejection rs = None \<longleftrightarrow> (\<forall>r \<in> set rs. \<exists>v. r = Inr v)"
  by (induction rs rule: firstRejection.induct) auto

lemma firstRejection_Some_mem: "firstRejection rs = Some e \<Longrightarrow> Inl e \<in> set rs"
  by (induction rs rule: firstRejection.induct) auto

lemma promiseAll_Inr_iff:
  "promiseAll order rs = Inr vs \<longleftrightarrow> (\<forall>r \<in> set rs. \<exists>v. r = Inr v) \<and> vs = fulfilled rs"
proof -
  let ?listed = "map (\<lambda>i. rs ! i) (filter (\<lambda>i. i < length rs) order)"
  have sub: "set ?listed \<subseteq> set rs" by auto
  have "firstRejection (?listed @ rs) = None \<longleftrightarrow> (\<forall>r \<in> set rs. \<exists>v. r = Inr v)"
    using sub unfolding firstRejection_None_iff by auto
  then show ?thesis
    by (auto simp: promiseAll_def split: option.splits)
qed

lemma promiseAll_Inl_mem: "promiseAll order rs = Inl e \<Longrightarrow> Inl e \<in> set rs"
proof -
  assume a: "promiseAll order rs = Inl e"
  let ?listed = "map (\<lambda>i. rs ! i) (filter (\<lambda>i. i < length rs) order)"
  have sub: "set ?listed \<subseteq> set rs" by auto
  from a have "firstRejection (?listed @ rs) = Some e"
    by (simp add: promiseAll_def split: option.splits)
  then have "Inl e \<in> set (?listed @ rs)" by (rule firstRejection_Some_mem)
  with sub show ?thesis by auto
qed

lemma promiseAll_rejects:
  assumes "i < length rs" and "rs ! i = Inl e0"
  shows "\<exists>e. promiseAll order rs = Inl e \<and> Inl e \<in> set rs"
proof (cases "promiseAll order rs")
  case (Inl e)
  with promiseAll_Inl_mem [OF Inl] show ?thesis by blast
next
  case (Inr vs)
  then have "\<forall>r \<in> set rs. \<exists>v. r = Inr v" by (simp add: promiseAll_Inr_iff)
  moreover from assms have "Inl e0 \<in> set rs" by (metis nth_mem)
  ultimately show ?thesis by blast
qed

text \<open>The promise that settles first decides when it rejects.\<close>

lemma promiseAll_first_settled:
  "i < length rs \<Longrightarrow> rs ! i = Inl e \<Longrightarrow> promiseAll (i # order) rs = Inl e"
  by (simp add: promiseAll_def)

lemma handleGenerate_accepted:
  "accepted st \<Longrightarrow>
   handleGenerate env st =
     (let (raised, st2, calls) = tryBlock env (started st)
      in (finallyBlock (case raised of None \<Rightarrow> st2 | Some err \<Rightarrow> catchBlock err st2), calls))"
  by (auto simp: handleGenerate_def accepted_def started_def Let_def)

lemma handleGenerate_not_accepted:
  "\<not> accepted st \<Longrightarrow>
   snd (handleGenerate env st) = [] \<and> presentation (fst (handleGenerate env st)) = presentation st
   \<and> uploadedFile (fst (handleGenerate env st)) = uploadedFile st"
  by (auto simp: handleGenerate_def accepted_def)

lemma submittedRequest_started [simp]: "submittedRequest (started st) = submittedRequest st"
  by (simp add: submittedRequest_def started_def)

lemma allCalls_started [simp]: "allCalls (started st) entries = allCalls st entries"
  by (simp add: allCalls_def)

lemma started_fields [simp]:
  "complexityLevel (started st) = complexityLevel st"
  "visualStyle (started st) = visualStyle st"
  "presentation (started st) = presentation st"
  "uploadedFile (started st) = uploadedFile st"
  "hasApiKey (started st) = hasApiKey st"
  "checkingKey (started st) = checkingKey st"
  "inputText (started st) = inputText st"
  by (simp_all add: started_def)

lemma run_outline_throws:
  assumes "accepted st" and "textService env (submittedRequest st) = Inl err"
  shows "handleGenerate env st =
     (finallyBlock (catchBlock err (started st)), [OutlineCall (submittedRequest st)])"
proof -
  from assms(2) have "textService env (submittedRequest (started st)) = Inl err" by simp
  from tryBlock_outline_throws [OF this] show ?thesis
    by (simp add: handleGenerate_accepted [OF assms(1)])
qed

lemma run_render_throws:
  assumes "accepted st" and "textService env (submittedRequest st) = Inr response"
    and "promiseAll (settleOrder env) (renderResults env (outline (readOutlineResponse (jsonParse env) response))) = Inl err"
  shows "handleGenerate env st =
     (finallyBlock (catchBlock err
        (rendering (length (outline (readOutlineResponse (jsonParse env) response))) st)),
      allCalls st (outline (readOutlineResponse (jsonParse env) response)))"
proof -
  from assms(2) have "textService env (submittedRequest (started st)) = Inr response" by simp
  from tryBlock_outline_answers [OF this] assms(3) show ?thesis
    by (simp add: handleGenerate_accepted [OF assms(1)] Let_def rendering_def)
qed

lemma run_empty_outline:
  assumes "accepted st" and "textService env (submittedRequest st) = Inr response"
    and "outline (readOutlineResponse (jsonParse env) response) = []"
  shows "handleGenerate env st =
     (finallyBlock (catchBlock (Thrown (Some (typeErrorMessage env))) (rendering 0 st)),
      [OutlineCall (submittedRequest st)])"
proof -
  from assms(2) have "textService env (submittedRequest (started st)) = Inr response" by simp
  from tryBlock_outline_answers [OF this] assms(3) show ?thesis
    by (simp add: handleGenerate_accepted [OF assms(1)] Let_def rendering_def allCalls_def
          renderResults_def slidePromises_def promiseAll_def)
qed

lemma run_assembles:
  assumes "accepted st" and "textService env (submittedRequest st) = Inr response"
    and "promiseAll (settleOrder env) (renderResults env (outline (readOutlineResponse (jsonParse env) response))) = Inr rendered"
    and "outline (readOutlineResponse (jsonParse env) response) = Entry entry0 # rest"
  shows "handleGenerate env st =
     (finallyBlock
        ((rendering (Suc (length rest)) st)
           \<lparr>presentation :=
              Some \<lparr>pres_id = showNat (nowId env),
                    topic = (if title entry0 \<noteq> [] then title entry0 else ascii ''Generated Presentation''),
                    timestamp = nowStamp env,
                    slides = rendered,
                    level = complexityLevel st,
                    style = visualStyle st,
                    sources = result_sources (readOutlineResponse (jsonParse env) response)\<rparr>,
            uploadedFile := None\<rparr>),
      allCalls st (Entry entry0 # rest))"
proof -
  from assms(2) have "textService env (submittedRequest (started st)) = Inr response" by simp
  from tryBlock_outline_answers [OF this] assms(3,4) show ?thesis
    by (simp add: handleGenerate_accepted [OF assms(1)] Let_def rendering_def)
qed

section \<open>A failed render leaves no presentation\<close>

lemma snd_slideTask:
  "snd (slideTask env i (Entry so)) =
     (case imageService env i (slideImageRequest so) of
        Inl err \<Rightarrow> Inl err
      | Inr response \<Rightarrow>
          (case imagePayload response of
             None \<Rightarrow> Inl renderFailure
           | Some d \<Rightarrow> Inr (slideOf i so (ascii ''data:image/png;base64,'' @ d))))"
  by (simp add: slideTask_def generateSlideImage_def Let_def slideOf_def
        split: sum.splits option.splits)

lemma snd_slideTask_null:
  "snd (slideTask env i NullEntry) = Inl (Thrown (Some (nullErrorMessage env)))"
  by (simp add: slideTask_def generateSlideImage_def)

lemma render_fails:
  "\<not> renderSucceeds env i entry \<Longrightarrow> \<exists>e. snd (slideTask env i entry) = Inl e"
  by (cases entry)
     (auto simp: snd_slideTask snd_slideTask_null renderSucceeds_def split: sum.splits option.splits)

lemma render_succeeds:
  "renderSucceeds env i entry \<Longrightarrow>
   \<exists>so. entry = Entry so \<and> snd (slideTask env i entry) = Inr (slideOf i so (renderedImage env i so))"
  by (cases entry)
     (auto simp: snd_slideTask renderSucceeds_def renderedImage_def split: sum.splits option.splits)

lemma render_without_payload:
  "imageService env i (slideImageRequest so) = Inr response \<Longrightarrow> imagePayload response = None \<Longrightarrow>
   snd (slideTask env i (Entry so)) = Inl renderFailure"
  by (simp add: snd_slideTask)

lemma catchBlock_keeps [simp]:
  "presentation (catchBlock err st) = presentation st"
  "uploadedFile (catchBlock err st) = uploadedFile st"
  "checkingKey (catchBlock err st) = checkingKey st"
  "isLoading (catchBlock err st) = isLoading st"
  by (simp_all add: catchBlock_def)

lemma finallyBlock_keeps [simp]:
  "presentation (finallyBlock st) = presentation st"
  "uploadedFile (finallyBlock st) = uploadedFile st"
  "error (finallyBlock st) = error st"
  "hasApiKey (finallyBlock st) = hasApiKey st"
  "checkingKey (finallyBlock st) = checkingKey st"
  "isLoading (finallyBlock st) = False"
  "loadingStep (finallyBlock st) = 0"
  by (simp_all add: finallyBlock_def)

lemma rendering_keeps [simp]:
  "presentation (rendering n st) = presentation st"
  "uploadedFile (rendering n st) = uploadedFile st"
  "hasApiKey (rendering n st) = hasApiKey st"
  "checkingKey (rendering n st) = checkingKey st"
  "error (rendering n st) = None"
  by (simp_all add: rendering_def started_def)

lemma error_catchBlock:
  "error (catchBlock err st) = Some (if isCredentialError err then credentialMessage else genericFailureMessage)"
  by (simp add: catchBlock_def)

lemma renderCalls_map [simp]: "renderCalls (map RenderCall requests) = requests"
  by (induction requests) simp_all

lemma outlineCalls_map [simp]: "outlineCalls (map RenderCall requests) = []"
  by (induction requests) simp_all

lemma renderCalls_allCalls [simp]: "renderCalls (allCalls st entries) = entryRequests entries"
  by (simp add: allCalls_def)

lemma outlineCalls_allCalls [simp]: "outlineCalls (allCalls st entries) = [submittedRequest st]"
  by (simp add: allCalls_def)

text \<open>
  C1. When the render of some outline entry fails, because the image service throws,
  because its response has no image payload (the render then rejects with
  "Failed to generate slide image") or because the entry is \<open>null\<close>, the run sets no
  presentation: the presentation and the attached file are as before the run, and an
  accepted submission ends with an error message, the credential one or the generic one.
\<close>

theorem all_or_nothing_assembly:
  assumes "textService env (submittedRequest st) = Inr response"
    and "entries = outline (readOutlineResponse (jsonParse env) response)"
    and "i < length entries"
    and "\<not> renderSucceeds env i (entries ! i)"
  shows "presentation (fst (handleGenerate env st)) = presentation st
    \<and> uploadedFile (fst (handleGenerate env st)) = uploadedFile st
    \<and> (accepted st \<longrightarrow>
         error (fst (handleGenerate env st)) = Some genericFailureMessage
         \<or> error (fst (handleGenerate env st)) = Some credentialMessage)
    \<and> (\<forall>so imgResponse.
          entries ! i = Entry so \<and> imageService env i (slideImageRequest so) = Inr imgResponse \<longrightarrow>
            renderResults env entries ! i = Inl renderFailure
            \<and> message renderFailure = Some (ascii ''Failed to generate slide image''))
    \<and> (entries ! i = NullEntry \<longrightarrow>
          renderResults env entries ! i = Inl (Thrown (Some (nullErrorMessage env))))"
proof -
  have payload: "(\<forall>so imgResponse.
          entries ! i = Entry so \<and> imageService env i (slideImageRequest so) = Inr imgResponse \<longrightarrow>
            renderResults env entries ! i = Inl renderFailure
            \<and> message renderFailure = Some (ascii ''Failed to generate slide image''))
    \<and> (entries ! i = NullEntry \<longrightarrow>
          renderResults env entries ! i = Inl (Thrown (Some (nullErrorMessage env))))"
    using assms(3,4)
    by (auto simp: nth_renderResults snd_slideTask snd_slideTask_null renderSucceeds_def
          renderFailure_def split: sum.splits option.splits)
  show ?thesis
  proof (cases "accepted st")
    case False
    from handleGenerate_not_accepted [OF False, of env] payload False show ?thesis
      by simp
  next
    case True
    from render_fails [OF assms(4)] obtain e0 where "snd (slideTask env i (entries ! i)) = Inl e0"
      by blast
    with assms(3) have "renderResults env entries ! i = Inl e0"
      by (simp add: nth_renderResults)
    with promiseAll_rejects [of i "renderResults env entries" e0 "settleOrder env"] assms(3)
    obtain e where rej: "promiseAll (settleOrder env) (renderResults env entries) = Inl e"
      by (auto simp: length_renderResults)
    have run: "handleGenerate env st =
        (finallyBlock (catchBlock e (rendering (length entries) st)), allCalls st entries)"
      using run_render_throws [OF True assms(1)] rej unfolding assms(2) by simp
    show ?thesis
      using payload by (simp add: run error_catchBlock)
  qed
qed


lemma accepted_exampleState: "accepted exampleState"
  by (simp add: accepted_def exampleState_def initialState_def js_trim_def isWhiteSpace_def ascii_def)

lemma example_match: "jsonMatch exampleAnswer = Some exampleJson"
  by (simp add: jsonMatch_def exampleAnswer_def exampleJson_def LBRACKET_def RBRACKET_def ascii_def)

lemma example_parse: "exampleParse exampleJson = Some exampleEntries"
  by (simp add: exampleParse_def)

lemma example_outline:
  "outline (readOutlineResponse exampleParse \<lparr>resp_text = Some exampleAnswer, groundingChunks = None\<rparr>)
     = exampleEntries"
  by (simp add: readOutlineResponse_def responseText_def parseOutline_def example_match example_parse)

theorem all_or_nothing_assembly_witness:
  "accepted exampleState
   \<and> \<not> renderSucceeds
        (exampleEnv (Inr exampleAnswer)
           (\<lambda>index. if index = 1 then imageWithoutPayload else imageWithPayload) [1, 0])
        1 (exampleEntries ! 1)
   \<and> presentation (fst (handleGenerate
        (exampleEnv (Inr exampleAnswer)
           (\<lambda>index. if index = 1 then imageWithoutPayload else imageWithPayload) [1, 0])
        exampleState)) = None
   \<and> (error (fst (handleGenerate
        (exampleEnv (Inr exampleAnswer)
           (\<lambda>index. if index = 1 then imageWithoutPayload else imageWithPayload) [1, 0])
        exampleState)) = Some genericFailureMessage
      \<or> error (fst (handleGenerate
        (exampleEnv (Inr exampleAnswer)
           (\<lambda>index. if index = 1 then imageWithoutPayload else imageWithPayload) [1, 0])
        exampleState)) = Some credentialMessage)
   \<and> renderResults
        (exampleEnv (Inr exampleAnswer)
           (\<lambda>index. if index = 1 then imageWithoutPayload else imageWithPayload) [1, 0])
        exampleEntries ! 1 = Inl renderFailure"
proof -
  let ?env = "exampleEnv (Inr exampleAnswer)
           (\<lambda>index. if index = 1 then imageWithoutPayload else imageWithPayload) [1, 0]"
  let ?response = "\<lparr>resp_text = Some exampleAnswer, groundingChunks = None\<rparr>"
  have h1: "textService ?env (submittedRequest exampleState) = Inr ?response"
    by (simp add: exampleEnv_def)
  have h2: "exampleEntries = outline (readOutlineResponse (jsonParse ?env) ?response)"
    using example_outline by (simp add: exampleEnv_def)
  have h3: "1 < length exampleEntries"
    by (simp add: exampleEntries_def)
  have h4: "\<not> renderSucceeds ?env 1 (exampleEntries ! 1)"
    by (simp add: renderSucceeds_def exampleEntries_def exampleEnv_def imageWithoutPayload_def
          imagePayload_def)
  have second: "exampleEntries ! 1
      = Entry \<lparr>title = ascii ''End'', content = ascii ''Bye'', visualDescription = ascii ''Red''\<rparr>"
    by (simp add: exampleEntries_def)
  have img: "imageService ?env 1
        (slideImageRequest \<lparr>title = ascii ''End'', content = ascii ''Bye'', visualDescription = ascii ''Red''\<rparr>)
      = Inr \<lparr>firstPart = None\<rparr>"
    by (simp add: exampleEnv_def imageWithoutPayload_def)
  have before: "presentation exampleState = None"
    by (simp add: exampleState_def initialState_def)
  from all_or_nothing_assembly [OF h1 h2 h3 h4] accepted_exampleState h4 second img before
  show ?thesis by simp
qed

section \<open>The slides follow the outline\<close>

lemma tryBlock_calls:
  "textService env (submittedRequest st) = Inr response \<Longrightarrow>
   snd (snd (tryBlock env st)) = allCalls st (outline (readOutlineResponse (jsonParse env) response))"
  by (simp add: tryBlock_outline_answers Let_def split: sum.split list.split OutlineEntry.split)

lemma run_calls:
  assumes "accepted st" and "textService env (submittedRequest st) = Inr response"
  shows "snd (handleGenerate env st) = allCalls st (outline (readOutlineResponse (jsonParse env) response))"
proof -
  from assms(2) have "textService env (submittedRequest (started st)) = Inr response" by simp
  from tryBlock_calls [OF this] show ?thesis
    by (simp add: handleGenerate_accepted [OF assms(1)] split_def Let_def)
qed

lemma run_with_failed_render:
  assumes "accepted st" and "textService env (submittedRequest st) = Inr response"
    and "i < length (outline (readOutlineResponse (jsonParse env) response))"
    and "\<not> renderSucceeds env i (outline (readOutlineResponse (jsonParse env) response) ! i)"
  shows "\<exists>e. handleGenerate env st =
      (finallyBlock (catchBlock e
         (rendering (length (outline (readOutlineResponse (jsonParse env) response))) st)),
       allCalls st (outline (readOutlineResponse (jsonParse env) response)))"
proof -
  let ?entries = "outline (readOutlineResponse (jsonParse env) response)"
  from render_fails [OF assms(4)] obtain e0 where "snd (slideTask env i (?entries ! i)) = Inl e0"
    by blast
  with assms(3) have "renderResults env ?entries ! i = Inl e0"
    by (simp add: nth_renderResults)
  with promiseAll_rejects [of i "renderResults env ?entries" e0 "settleOrder env"] assms(3)
  obtain e where "promiseAll (settleOrder env) (renderResults env ?entries) = Inl e"
    by (auto simp: length_renderResults)
  from run_render_throws [OF assms(1,2) this] show ?thesis by blast
qed

lemma fulfilled_map_Inr: "fulfilled (map (\<lambda>x. Inr (f x)) xs) = map f xs"
  by (induction xs) simp_all

lemma entryRequests_map_Entry: "entryRequests (map Entry objects) = map slideImageRequest objects"
  by (induction objects) simp_all

lemma renderResults_all_succeed:
  assumes "\<forall>i<length objects. renderSucceeds env i (Entry (objects ! i))"
  shows "renderResults env (map Entry objects)
     = map (\<lambda>(i, so). Inr (slideOf i so (renderedImage env i so))) (List.enumerate 0 objects)"
proof (rule nth_equalityI)
  show "length (renderResults env (map Entry objects))
      = length (map (\<lambda>(i, so). Inr (slideOf i so (renderedImage env i so))) (List.enumerate 0 objects))"
    by (simp add: length_renderResults)
next
  fix i
  assume "i < length (renderResults env (map Entry objects))"
  then have i: "i < length objects" by (simp add: length_renderResults)
  with assms have "renderSucceeds env i (Entry (objects ! i))" by blast
  from render_succeeds [OF this] i
  show "renderResults env (map Entry objects) ! i
      = map (\<lambda>(i, so). Inr (slideOf i so (renderedImage env i so))) (List.enumerate 0 objects) ! i"
    by (simp add: nth_renderResults nth_enumerate_eq)
qed

text \<open>The slides of a deck whose renders all succeed.\<close>

lemma promiseAll_all_succeed:
  assumes "\<forall>i<length objects. renderSucceeds env i (Entry (objects ! i))"
  shows "promiseAll order (renderResults env (map Entry objects))
     = Inr (map (\<lambda>(i, so). slideOf i so (renderedImage env i so)) (List.enumerate 0 objects))"
proof -
  let ?f = "\<lambda>(i, so). slideOf i so (renderedImage env i so)"
  have rr: "renderResults env (map Entry objects) = map (\<lambda>x. Inr (?f x)) (List.enumerate 0 objects)"
    using renderResults_all_succeed [OF assms] by (simp add: split_def)
  have "\<forall>r \<in> set (renderResults env (map Entry objects)). \<exists>v. r = Inr v"
    unfolding rr by auto
  moreover have "fulfilled (renderResults env (map Entry objects)) = map ?f (List.enumerate 0 objects)"
    unfolding rr by (rule fulfilled_map_Inr)
  ultimately show ?thesis
    by (simp add: promiseAll_Inr_iff)
qed

lemma settleOrder_irrelevant [simp]:
  "textService (env\<lparr>settleOrder := order\<rparr>) = textService env"
  "jsonParse (env\<lparr>settleOrder := order\<rparr>) = jsonParse env"
  "nowId (env\<lparr>settleOrder := order\<rparr>) = nowId env"
  "nowStamp (env\<lparr>settleOrder := order\<rparr>) = nowStamp env"
  "renderSucceeds (env\<lparr>settleOrder := order\<rparr>) = renderSucceeds env"
  "renderedImage (env\<lparr>settleOrder := order\<rparr>) = renderedImage env"
  by (simp_all add: renderSucceeds_def renderedImage_def fun_eq_iff split: OutlineEntry.split)

lemma run_all_succeed:
  assumes "accepted st" and "textService env (submittedRequest st) = Inr response"
    and "outline (readOutlineResponse (jsonParse env) response) = map Entry (entry0 # rest)"
    and "\<forall>i<length (entry0 # rest). renderSucceeds env i (Entry ((entry0 # rest) ! i))"
  shows "fst (handleGenerate env st) =
     finallyBlock
        ((rendering (Suc (length rest)) st)
           \<lparr>presentation :=
              Some \<lparr>pres_id = showNat (nowId env),
                    topic = (if title entry0 \<noteq> [] then title entry0 else ascii ''Generated Presentation''),
                    timestamp = nowStamp env,
                    slides = map (\<lambda>(i, so). slideOf i so (renderedImage env i so))
                               (List.enumerate 0 (entry0 # rest)),
                    level = complexityLevel st,
                    style = visualStyle st,
                    sources = result_sources (readOutlineResponse (jsonParse env) response)\<rparr>,
            uploadedFile := None\<rparr>)"
proof -
  have all: "promiseAll (settleOrder env) (renderResults env (outline (readOutlineResponse (jsonParse env) response)))
      = Inr (map (\<lambda>(i, so). slideOf i so (renderedImage env i so)) (List.enumerate 0 (entry0 # rest)))"
    unfolding assms(3) by (rule promiseAll_all_succeed [OF assms(4)])
  have shape: "outline (readOutlineResponse (jsonParse env) response) = Entry entry0 # map Entry rest"
    using assms(3) by simp
  from run_assembles [OF assms(1,2) all shape] show ?thesis by simp
qed

lemma example_match_with_null: "jsonMatch exampleAnswerWithNull = Some exampleJsonWithNull"
  by (simp add: jsonMatch_def exampleAnswerWithNull_def exampleJsonWithNull_def LBRACKET_def
        RBRACKET_def ascii_def)

lemma example_parse_with_null:
  "exampleParse exampleJsonWithNull
     = Some [NullEntry,
             Entry \<lparr>title = ascii ''End'', content = ascii ''Bye'', visualDescription = ascii ''Red''\<rparr>]"
  by (simp add: exampleParse_def exampleJsonWithNull_def exampleJson_def ascii_def)

lemma example_match_empty: "jsonMatch (ascii ''Sure: []'') = Some (ascii ''[]'')"
  by (simp add: jsonMatch_def LBRACKET_def RBRACKET_def ascii_def)

lemma example_parse_empty: "exampleParse (ascii ''[]'') = Some []"
  by (simp add: exampleParse_def exampleJsonWithNull_def exampleJson_def ascii_def)

theorem order_preservation_counterexample:
  "length (outline (readOutlineResponse exampleParse
      \<lparr>resp_text = Some exampleAnswerWithNull, groundingChunks = None\<rparr>)) = 2
   \<and> length (renderCalls (snd (handleGenerate
        (exampleEnv (Inr exampleAnswerWithNull) (\<lambda>index. imageWithPayload) []) exampleState))) = 1
   \<and> length (outline (readOutlineResponse exampleParse
      \<lparr>resp_text = Some (ascii ''Sure: []''), groundingChunks = None\<rparr>)) = 0
   \<and> presentation (fst (handleGenerate
        (exampleEnv (Inr (ascii ''Sure: []'')) (\<lambda>index. imageWithPayload) []) exampleState)) = None"
proof -
  let ?withNull = "\<lparr>resp_text = Some exampleAnswerWithNull, groundingChunks = None\<rparr>"
  let ?empty = "\<lparr>resp_text = Some (ascii ''Sure: []''), groundingChunks = None\<rparr>"
  let ?envNull = "exampleEnv (Inr exampleAnswerWithNull) (\<lambda>index. imageWithPayload) []"
  let ?envEmpty = "exampleEnv (Inr (ascii ''Sure: []'')) (\<lambda>index. imageWithPayload) []"
  have outNull: "outline (readOutlineResponse exampleParse ?withNull)
      = [NullEntry,
         Entry \<lparr>title = ascii ''End'', content = ascii ''Bye'', visualDescription = ascii ''Red''\<rparr>]"
    by (simp add: readOutlineResponse_def responseText_def parseOutline_def example_match_with_null
          example_parse_with_null)
  have outEmpty: "outline (readOutlineResponse exampleParse ?empty) = []"
    by (simp add: readOutlineResponse_def responseText_def parseOutline_def example_match_empty
          example_parse_empty)
  have tNull: "textService ?envNull (submittedRequest exampleState) = Inr ?withNull"
    by (simp add: exampleEnv_def)
  have tEmpty: "textService ?envEmpty (submittedRequest exampleState) = Inr ?empty"
    by (simp add: exampleEnv_def)
  have p: "jsonParse ?envNull = exampleParse" "jsonParse ?envEmpty = exampleParse"
    by (simp_all add: exampleEnv_def)
  have calls: "renderCalls (snd (handleGenerate ?envNull exampleState))
      = entryRequests (outline (readOutlineResponse exampleParse ?withNull))"
    using run_calls [OF accepted_exampleState tNull] by (simp add: p)
  have unset: "presentation (fst (handleGenerate ?envEmpty exampleState)) = None"
    using run_empty_outline [OF accepted_exampleState tEmpty] outEmpty
    by (simp add: p exampleState_def initialState_def)
  show ?thesis
    using calls unset by (simp add: outNull outEmpty)
qed

text \<open>
  C2, as the code has it. An accepted submission whose outline request is answered sends
  the render requests of the entries that are not \<open>null\<close>, in outline order, whether or not
  the renders succeed: exactly one per entry when every entry is an object, and fewer than
  there are entries when one is \<open>null\<close>, in which case no presentation is set. When every
  entry is an object, all renders succeed and the outline is not empty, the presentation
  set has one slide per entry, slide \<open>i\<close> carrying the title of entry \<open>i\<close>, its content as
  speaker notes, the identifier \<open>slide-i\<close> and the image rendered for entry \<open>i\<close>, and the
  state reached is the same for every order in which the renders settle. An empty outline
  sets no presentation.
\<close>

theorem order_preservation:
  assumes "accepted st"
    and "textService env (submittedRequest st) = Inr response"
    and "entries = outline (readOutlineResponse (jsonParse env) response)"
  shows "renderCalls (snd (handleGenerate env st)) = entryRequests entries
    \<and> (NullEntry \<in> set entries \<longrightarrow>
          length (renderCalls (snd (handleGenerate env st))) < length entries
        \<and> presentation (fst (handleGenerate env st)) = presentation st)
    \<and> (\<forall>objects. entries = map Entry objects \<longrightarrow>
          renderCalls (snd (handleGenerate env st)) = map slideImageRequest objects
        \<and> length (renderCalls (snd (handleGenerate env st))) = length entries
        \<and> ((\<forall>i<length objects. renderSucceeds env i (Entry (objects ! i))) \<and> objects \<noteq> [] \<longrightarrow>
             (\<exists>p. presentation (fst (handleGenerate env st)) = Some p
                \<and> length (slides p) = length entries
                \<and> (\<forall>i<length objects.
                      slide_title (slides p ! i) = title (objects ! i)
                    \<and> speakerNotes (slides p ! i) = content (objects ! i)
                    \<and> slide_id (slides p ! i) = ascii ''slide-'' @ showNat i
                    \<and> slide_data (slides p ! i) = renderedImage env i (objects ! i)))
             \<and> (\<forall>order. fst (handleGenerate (env\<lparr>settleOrder := order\<rparr>) st)
                          = fst (handleGenerate env st)))
        \<and> (objects = [] \<longrightarrow> presentation (fst (handleGenerate env st)) = presentation st))"
proof -
  have calls: "renderCalls (snd (handleGenerate env st)) = entryRequests entries"
    using run_calls [OF assms(1,2)] by (simp add: assms(3))
  have withNull: "length (renderCalls (snd (handleGenerate env st))) < length entries
        \<and> presentation (fst (handleGenerate env st)) = presentation st"
    if null: "NullEntry \<in> set entries"
  proof -
    from null obtain i where i: "i < length entries" "entries ! i = NullEntry"
      by (auto simp: in_set_conv_nth)
    then have "\<not> renderSucceeds env i (entries ! i)"
      by (simp add: renderSucceeds_def)
    with run_with_failed_render [OF assms(1,2), of i] i(1) assms(3)
    obtain e where "handleGenerate env st =
        (finallyBlock (catchBlock e (rendering (length entries) st)), allCalls st entries)"
      by auto
    then show ?thesis
      using entryRequests_with_null [OF null] by simp
  qed
  have unset: "presentation (fst (handleGenerate env st)) = presentation st" if "entries = []"
    using run_empty_outline [OF assms(1,2)] that assms(3) by simp
  have deck: "(\<exists>p. presentation (fst (handleGenerate env st)) = Some p
           \<and> length (slides p) = length entries
           \<and> (\<forall>i<length objects.
                 slide_title (slides p ! i) = title (objects ! i)
               \<and> speakerNotes (slides p ! i) = content (objects ! i)
               \<and> slide_id (slides p ! i) = ascii ''slide-'' @ showNat i
               \<and> slide_data (slides p ! i) = renderedImage env i (objects ! i)))
        \<and> (\<forall>order. fst (handleGenerate (env\<lparr>settleOrder := order\<rparr>) st) = fst (handleGenerate env st))"
    if shape: "entries = map Entry objects"
      and ok: "\<forall>i<length objects. renderSucceeds env i (Entry (objects ! i))"
      and ne: "objects \<noteq> []"
    for objects
  proof -
    from ne obtain entry0 rest where split: "objects = entry0 # rest" by (cases objects) auto
    have out: "outline (readOutlineResponse (jsonParse env) response) = map Entry (entry0 # rest)"
      using assms(3) shape split by simp
    have ok': "\<forall>i<length (entry0 # rest). renderSucceeds env i (Entry ((entry0 # rest) ! i))"
      using ok split by simp
    note run = run_all_succeed [OF assms(1,2) out ok']
    have others: "fst (handleGenerate (env\<lparr>settleOrder := order\<rparr>) st) = fst (handleGenerate env st)"
      for order
    proof -
      have "fst (handleGenerate (env\<lparr>settleOrder := order\<rparr>) st) =
        finallyBlock
          ((rendering (Suc (length rest)) st)
             \<lparr>presentation :=
                Some \<lparr>pres_id = showNat (nowId env),
                      topic = (if title entry0 \<noteq> [] then title entry0 else ascii ''Generated Presentation''),
                      timestamp = nowStamp env,
                      slides = map (\<lambda>(i, so). slideOf i so (renderedImage env i so))
                                 (List.enumerate 0 (entry0 # rest)),
                      level = complexityLevel st,
                      style = visualStyle st,
                      sources = result_sources (readOutlineResponse (jsonParse env) response)\<rparr>,
              uploadedFile := None\<rparr>)"
        using run_all_succeed [of st "env\<lparr>settleOrder := order\<rparr>" response entry0 rest]
          assms(1,2) out ok'
        by simp
      with run show ?thesis by simp
    qed
    have "\<forall>i<length objects.
        slide_title (map (\<lambda>(i, so). slideOf i so (renderedImage env i so)) (List.enumerate 0 objects) ! i) = title (objects ! i)
      \<and> speakerNotes (map (\<lambda>(i, so). slideOf i so (renderedImage env i so)) (List.enumerate 0 objects) ! i) = content (objects ! i)
      \<and> slide_id (map (\<lambda>(i, so). slideOf i so (renderedImage env i so)) (List.enumerate 0 objects) ! i) = ascii ''slide-'' @ showNat i
      \<and> slide_data (map (\<lambda>(i, so). slideOf i so (renderedImage env i so)) (List.enumerate 0 objects) ! i) = renderedImage env i (objects ! i)"
      by (simp add: nth_enumerate_eq slideOf_def)
    then show ?thesis
      using others by (simp add: run split [symmetric] shape del: enumerate_simps)
  qed
  have objectsOnly: "renderCalls (snd (handleGenerate env st)) = map slideImageRequest objects
        \<and> length (renderCalls (snd (handleGenerate env st))) = length entries"
    if "entries = map Entry objects" for objects
    using that calls by (simp add: entryRequests_map_Entry)
  have emptyOnly: "presentation (fst (handleGenerate env st)) = presentation st"
    if "entries = map Entry objects" "objects = []" for objects
    using that unset by simp
  show ?thesis
    using calls withNull objectsOnly deck emptyOnly by blast
qed

theorem order_preservation_witness:
  "accepted exampleState
   \<and> renderCalls (snd (handleGenerate
        (exampleEnv (Inr exampleAnswer) (\<lambda>index. imageWithPayload) [1, 0]) exampleState))
       = [slideImageRequest \<lparr>title = ascii ''Intro'', content = ascii ''Hello'', visualDescription = ascii ''Blue''\<rparr>,
          slideImageRequest \<lparr>title = ascii ''End'', content = ascii ''Bye'', visualDescription = ascii ''Red''\<rparr>]
   \<and> (\<exists>p. presentation (fst (handleGenerate
        (exampleEnv (Inr exampleAnswer) (\<lambda>index. imageWithPayload) [1, 0]) exampleState)) = Some p
        \<and> length (slides p) = 2
        \<and> slide_title (slides p ! 0) = ascii ''Intro''
        \<and> slide_title (slides p ! 1) = ascii ''End''
        \<and> speakerNotes (slides p ! 0) = ascii ''Hello''
        \<and> speakerNotes (slides p ! 1) = ascii ''Bye''
        \<and> slide_id (slides p ! 0) = ascii ''slide-0''
        \<and> slide_id (slides p ! 1) = ascii ''slide-1''
        \<and> slide_data (slides p ! 1) = onePixelUrl)
   \<and> fst (handleGenerate
        (exampleEnv (Inr exampleAnswer) (\<lambda>index. imageWithPayload) [0, 1]) exampleState)
     = fst (handleGenerate
        (exampleEnv (Inr exampleAnswer) (\<lambda>index. imageWithPayload) [1, 0]) exampleState)"
proof -
  let ?env = "exampleEnv (Inr exampleAnswer) (\<lambda>index. imageWithPayload) [1, 0]"
  let ?response = "\<lparr>resp_text = Some exampleAnswer, groundingChunks = None\<rparr>"
  let ?first = "\<lparr>title = ascii ''Intro'', content = ascii ''Hello'', visualDescription = ascii ''Blue''\<rparr>"
  let ?second = "\<lparr>title = ascii ''End'', content = ascii ''Bye'', visualDescription = ascii ''Red''\<rparr>"
  have h2: "textService ?env (submittedRequest exampleState) = Inr ?response"
    by (simp add: exampleEnv_def)
  have h3: "exampleEntries = outline (readOutlineResponse (jsonParse ?env) ?response)"
    using example_outline by (simp add: exampleEnv_def)
  have shape: "exampleEntries = map Entry [?first, ?second]"
    by (simp add: exampleEntries_def)
  have png: "onePixelPng \<noteq> []"
    by (simp add: onePixelPng_def ascii_def)
  have ok: "\<forall>i<length [?first, ?second]. renderSucceeds ?env i (Entry ([?first, ?second] ! i))"
    using png by (simp add: renderSucceeds_def exampleEnv_def imageWithPayload_def imagePayload_def)
  have other: "?env\<lparr>settleOrder := [0, 1]\<rparr>
      = exampleEnv (Inr exampleAnswer) (\<lambda>index. imageWithPayload) [0, 1]"
    by (simp add: exampleEnv_def)
  from order_preservation [OF accepted_exampleState h2 h3] shape ok
  obtain p where p: "presentation (fst (handleGenerate ?env exampleState)) = Some p"
      "length (slides p) = length exampleEntries"
      "\<forall>i<length [?first, ?second].
                 slide_title (slides p ! i) = title ([?first, ?second] ! i)
               \<and> speakerNotes (slides p ! i) = content ([?first, ?second] ! i)
               \<and> slide_id (slides p ! i) = ascii ''slide-'' @ showNat i
               \<and> slide_data (slides p ! i) = renderedImage ?env i ([?first, ?second] ! i)"
    and ord: "\<forall>order. fst (handleGenerate (?env\<lparr>settleOrder := order\<rparr>) exampleState)
        = fst (handleGenerate ?env exampleState)"
    and calls: "renderCalls (snd (handleGenerate ?env exampleState)) = map slideImageRequest [?first, ?second]"
    by blast
  from p(3) have s0: "slide_title (slides p ! 0) = ascii ''Intro''
               \<and> speakerNotes (slides p ! 0) = ascii ''Hello''
               \<and> slide_id (slides p ! 0) = ascii ''slide-'' @ showNat 0"
    by simp
  from p(3) have s1: "slide_title (slides p ! 1) = ascii ''End''
               \<and> speakerNotes (slides p ! 1) = ascii ''Bye''
               \<and> slide_id (slides p ! 1) = ascii ''slide-'' @ showNat 1
               \<and> slide_data (slides p ! 1) = renderedImage ?env 1 ?second"
    by simp
  have img: "renderedImage ?env 1 ?second = onePixelUrl"
    using png
    by (simp add: renderedImage_def exampleEnv_def imageWithPayload_def imagePayload_def onePixelUrl_def)
  have ids: "ascii ''slide-'' @ showNat 0 = ascii ''slide-0''" "ascii ''slide-'' @ showNat 1 = ascii ''slide-1''"
    by (simp_all add: showNat.simps digit_def ascii_def)
  have len: "length exampleEntries = 2"
    by (simp add: exampleEntries_def)
  from ord have "fst (handleGenerate (?env\<lparr>settleOrder := [0, 1]\<rparr>) exampleState)
        = fst (handleGenerate ?env exampleState)"
    by blast
  then have swap: "fst (handleGenerate
        (exampleEnv (Inr exampleAnswer) (\<lambda>index. imageWithPayload) [0, 1]) exampleState)
      = fst (handleGenerate ?env exampleState)"
    by (simp only: other)
  show ?thesis
    using accepted_exampleState calls p(1,2) len s0 s1 img ids swap
    by (simp only: simp_thms) auto
qed

section \<open>A response without a parsable outline\<close>

lemma upToLast_empty_iff: "rev (dropWhile (\<lambda>c. c \<noteq> x) (rev xs)) = [] \<longleftrightarrow> x \<notin> set xs"
  by (auto simp: dropWhile_eq_Nil_conv)

lemma upToLast_split:
  "x \<notin> set post \<Longrightarrow> rev (dropWhile (\<lambda>c. c \<noteq> x) (rev (mid @ x # post))) = mid @ [x]"
proof -
  assume "x \<notin> set post"
  then have "dropWhile (\<lambda>c. c \<noteq> x) (rev post @ x # rev mid) = x # rev mid"
    by (auto simp: dropWhile_append3)
  then show ?thesis by simp
qed

lemma fromFirst_split:
  "x \<notin> set pre \<Longrightarrow> dropWhile (\<lambda>c. c \<noteq> x) (pre @ x # rest) = x # rest"
  by (auto simp: dropWhile_append3)

text \<open>The match runs from the first opening bracket to the last closing bracket.\<close>

lemma jsonMatch_Some:
  assumes "txt = pre @ LBRACKET # mid @ RBRACKET # post"
    and "LBRACKET \<notin> set pre" and "RBRACKET \<notin> set post"
  shows "jsonMatch txt = Some (LBRACKET # mid @ [RBRACKET])"
  using assms by (simp add: jsonMatch_def fromFirst_split upToLast_split Let_def)

lemma jsonMatch_None_iff:
  "jsonMatch txt = None \<longleftrightarrow> \<not> (\<exists>pre mid post. txt = pre @ LBRACKET # mid @ RBRACKET # post)"
proof (cases "LBRACKET \<in> set txt")
  case False
  then have "dropWhile (\<lambda>c. c \<noteq> LBRACKET) txt = []"
    by (auto simp: dropWhile_eq_Nil_conv)
  moreover from False have "\<not> (\<exists>pre mid post. txt = pre @ LBRACKET # mid @ RBRACKET # post)"
    by auto
  ultimately show ?thesis by (simp add: jsonMatch_def)
next
  case True
  then obtain pre rest where shape: "txt = pre @ LBRACKET # rest" and first: "LBRACKET \<notin> set pre"
    by (auto dest: split_list_first)
  have fromOpen: "dropWhile (\<lambda>c. c \<noteq> LBRACKET) txt = LBRACKET # rest"
    unfolding shape by (rule fromFirst_split [OF first])
  have none: "jsonMatch txt = None \<longleftrightarrow> RBRACKET \<notin> set rest"
    by (auto simp: jsonMatch_def fromOpen Let_def upToLast_empty_iff)
  have "(\<exists>pre' mid post. txt = pre' @ LBRACKET # mid @ RBRACKET # post) \<longleftrightarrow> RBRACKET \<in> set rest"
  proof
    assume "RBRACKET \<in> set rest"
    then obtain mid post where "rest = mid @ RBRACKET # post" by (auto dest: split_list)
    with shape show "\<exists>pre' mid post. txt = pre' @ LBRACKET # mid @ RBRACKET # post" by blast
  next
    assume "\<exists>pre' mid post. txt = pre' @ LBRACKET # mid @ RBRACKET # post"
    then obtain pre' mid post where eq: "pre @ LBRACKET # rest = pre' @ LBRACKET # mid @ RBRACKET # post"
      using shape by auto
    then consider us where "pre = pre' @ us" "us @ LBRACKET # rest = LBRACKET # mid @ RBRACKET # post"
      | us where "pre @ us = pre'" "LBRACKET # rest = us @ LBRACKET # mid @ RBRACKET # post"
      by (auto simp: append_eq_append_conv2)
    then show "RBRACKET \<in> set rest"
    proof cases
      case 1
      with first have "us = []" by (cases us) auto
      with 1 show ?thesis by auto
    next
      case 2
      then show ?thesis by (cases us) auto
    qed
  qed
  with none show ?thesis by simp
qed


text \<open>
  C3. When the response text holds no opening bracket followed later by a closing bracket,
  or when the parser fails on the match, the outline is the one synthetic entry (its title
  and content the two fixed messages, its visual directive generic); the call itself
  returns a result, and the run goes on to send the render request of that entry alone.
  Otherwise the outline is the parsed array as it is, of whatever length: the slide count
  of the request is not compared with it.
\<close>

theorem outline_parse_degradation:
  "((\<not> (\<exists>pre mid post. responseText response = pre @ LBRACKET # mid @ RBRACKET # post)
      \<or> (\<exists>m. jsonMatch (responseText response) = Some m \<and> parse m = None))
     \<longrightarrow> outline (readOutlineResponse parse response) = fallbackOutline)
   \<and> length fallbackOutline = 1
   \<and> fallbackOutline =
       [Entry \<lparr>title = [0x751F, 0x6210, 0x5931, 0x8D25],
               content = [0x65E0, 0x6CD5, 0x89E3, 0x6790, 0x5927, 0x7EB2, 0x7ED3, 0x6784, 0xFF0C,
                          0x8BF7, 0x91CD, 0x8BD5, 0x3002],
               visualDescription = ascii ''Generic professional background''\<rparr>]
   \<and> (\<forall>m entries. jsonMatch (responseText response) = Some m \<and> parse m = Some entries
         \<longrightarrow> outline (readOutlineResponse parse response) = entries)
   \<and> (svc (outlineRequest input attachedFile lvl sty lang n) = Inr response
         \<longrightarrow> snd (generatePresentationOutline svc parse input attachedFile lvl sty lang n)
             = Inr (readOutlineResponse parse response))
   \<and> (accepted st \<and> textService env (submittedRequest st) = Inr response
        \<and> outline (readOutlineResponse (jsonParse env) response) = fallbackOutline
         \<longrightarrow> renderCalls (snd (handleGenerate env st))
             = [slideImageRequest
                \<lparr>title = [0x751F, 0x6210, 0x5931, 0x8D25],
                 content = [0x65E0, 0x6CD5, 0x89E3, 0x6790, 0x5927, 0x7EB2, 0x7ED3, 0x6784, 0xFF0C,
                            0x8BF7, 0x91CD, 0x8BD5, 0x3002],
                 visualDescription = ascii ''Generic professional background''\<rparr>]
           \<and> length (renderCalls (snd (handleGenerate env st))) = 1)"
proof -
  have degrade: "outline (readOutlineResponse parse response) = fallbackOutline"
    if "\<not> (\<exists>pre mid post. responseText response = pre @ LBRACKET # mid @ RBRACKET # post)
      \<or> (\<exists>m. jsonMatch (responseText response) = Some m \<and> parse m = None)"
  proof -
    from that consider "jsonMatch (responseText response) = None"
      | m where "jsonMatch (responseText response) = Some m" "parse m = None"
      using jsonMatch_None_iff [of "responseText response"] by metis
    then show ?thesis
      by cases (simp_all add: readOutlineResponse_def parseOutline_def)
  qed
  have parsed: "outline (readOutlineResponse parse response) = entries"
    if "jsonMatch (responseText response) = Some m" "parse m = Some entries" for m entries
    using that by (simp add: readOutlineResponse_def parseOutline_def)
  have returns: "snd (generatePresentationOutline svc parse input attachedFile lvl sty lang n)
             = Inr (readOutlineResponse parse response)"
    if "svc (outlineRequest input attachedFile lvl sty lang n) = Inr response"
    using that by (simp add: generatePresentationOutline_def)
  have continues: "renderCalls (snd (handleGenerate env st))
             = [slideImageRequest
                \<lparr>title = [0x751F, 0x6210, 0x5931, 0x8D25],
                 content = [0x65E0, 0x6CD5, 0x89E3, 0x6790, 0x5927, 0x7EB2, 0x7ED3, 0x6784, 0xFF0C,
                            0x8BF7, 0x91CD, 0x8BD5, 0x3002],
                 visualDescription = ascii ''Generic professional background''\<rparr>]
           \<and> length (renderCalls (snd (handleGenerate env st))) = 1"
    if "accepted st" "textService env (submittedRequest st) = Inr response"
      "outline (readOutlineResponse (jsonParse env) response) = fallbackOutline"
    using run_calls [OF that(1,2)] that(3) by (simp add: fallbackOutline_def)
  show ?thesis
    using degrade parsed returns continues
    by (simp add: fallbackOutline_def)
qed


theorem outline_parse_degradation_witness:
  "outline (readOutlineResponse exampleParse
      \<lparr>resp_text = Some (ascii ''Sorry, no outline.''), groundingChunks = None\<rparr>) = fallbackOutline
   \<and> outline (readOutlineResponse exampleParse
      \<lparr>resp_text = Some (ascii ''Deck: [x]''), groundingChunks = None\<rparr>) = fallbackOutline
   \<and> outline (readOutlineResponse exampleParse
      \<lparr>resp_text = Some exampleAnswer, groundingChunks = None\<rparr>) = exampleEntries
   \<and> slideCount exampleState = 5 \<and> length exampleEntries = 2
   \<and> length (renderCalls (snd (handleGenerate
        (exampleEnv (Inr (ascii ''Sorry, no outline.'')) (\<lambda>index. imageWithPayload) []) exampleState)))
       = 1"
proof -
  let ?none = "\<lparr>resp_text = Some (ascii ''Sorry, no outline.''), groundingChunks = None\<rparr>"
  let ?bad = "\<lparr>resp_text = Some (ascii ''Deck: [x]''), groundingChunks = None\<rparr>"
  let ?good = "\<lparr>resp_text = Some exampleAnswer, groundingChunks = None\<rparr>"
  let ?env = "exampleEnv (Inr (ascii ''Sorry, no outline.'')) (\<lambda>index. imageWithPayload) []"
  have "jsonMatch (responseText ?none) = None"
    by (simp add: jsonMatch_def responseText_def LBRACKET_def RBRACKET_def ascii_def)
  then have n: "\<not> (\<exists>pre mid post. responseText ?none = pre @ LBRACKET # mid @ RBRACKET # post)"
    unfolding jsonMatch_None_iff .
  have b: "jsonMatch (responseText ?bad) = Some (ascii ''[x]'') \<and> exampleParse (ascii ''[x]'') = None"
    by (simp add: jsonMatch_def responseText_def LBRACKET_def RBRACKET_def exampleParse_def
          exampleJson_def exampleJsonWithNull_def ascii_def)
  have g: "jsonMatch (responseText ?good) = Some exampleJson \<and> exampleParse exampleJson = Some exampleEntries"
    by (simp add: responseText_def example_match example_parse)
  have t: "textService ?env (submittedRequest exampleState) = Inr ?none"
    by (simp add: exampleEnv_def)
  have p: "jsonParse ?env = exampleParse"
    by (simp add: exampleEnv_def)
  have first: "outline (readOutlineResponse exampleParse ?none) = fallbackOutline"
    using outline_parse_degradation [of ?none exampleParse] n by blast
  have second: "outline (readOutlineResponse exampleParse ?bad) = fallbackOutline"
    using outline_parse_degradation [of ?bad exampleParse] b by blast
  have third: "outline (readOutlineResponse exampleParse ?good) = exampleEntries"
    using outline_parse_degradation [of ?good exampleParse] g by blast
  have fourth: "length (renderCalls (snd (handleGenerate ?env exampleState))) = 1"
  proof -
    have "outline (readOutlineResponse (jsonParse ?env) ?none) = fallbackOutline"
      using first by (simp add: p)
    with outline_parse_degradation
      [where response = ?none and parse = "jsonParse ?env" and st = exampleState and env = ?env]
      accepted_exampleState t
    show ?thesis by blast
  qed
  show ?thesis
    using first second third fourth
    by (simp add: exampleState_def initialState_def exampleEntries_def)
qed

section \<open>Failures that look like a credential problem\<close>

lemma isCredentialError_iff: "isCredentialError err \<longleftrightarrow> credentialShaped err"
  by (cases err)
     (auto simp: isCredentialError_def credentialShaped_def messageContains_def ascii_def
        split: option.splits)

lemma messages_differ: "credentialMessage \<noteq> genericFailureMessage"
  by (simp add: credentialMessage_def genericFailureMessage_def)

text \<open>Where the \<open>try\<close> block can throw, and the state it leaves then.\<close>

lemma raised_cases:
  assumes "fst (tryBlock env (started st)) = Some err"
  shows "(textService env (submittedRequest st) = Inl err
            \<and> fst (snd (tryBlock env (started st))) = started st)
       \<or> (\<exists>response. textService env (submittedRequest st) = Inr response
            \<and> (Inl err \<in> set (renderResults env (outline (readOutlineResponse (jsonParse env) response)))
                 \<or> (outline (readOutlineResponse (jsonParse env) response) = []
                      \<and> err = Thrown (Some (typeErrorMessage env))))
            \<and> fst (snd (tryBlock env (started st)))
                = rendering (length (outline (readOutlineResponse (jsonParse env) response))) st)"
proof (cases "textService env (submittedRequest st)")
  case (Inl e)
  then have "textService env (submittedRequest (started st)) = Inl e" by simp
  from tryBlock_outline_throws [OF this] assms Inl show ?thesis by simp
next
  case (Inr response)
  then have t: "textService env (submittedRequest (started st)) = Inr response" by simp
  let ?entries = "outline (readOutlineResponse (jsonParse env) response)"
  show ?thesis
  proof (cases "promiseAll (settleOrder env) (renderResults env ?entries)")
    case (Inl e)
    from promiseAll_Inl_mem [OF Inl] tryBlock_outline_answers [OF t] assms Inl Inr show ?thesis
      by (simp add: Let_def rendering_def)
  next
    case ok: (Inr rendered)
    show ?thesis
    proof (cases ?entries)
      case Nil
      with tryBlock_outline_answers [OF t] assms ok Inr show ?thesis
        by (simp add: Let_def rendering_def)
    next
      case (Cons entry0 rest)
      show ?thesis
      proof (cases entry0)
        case NullEntry
        have "renderResults env ?entries ! 0 = Inl (Thrown (Some (nullErrorMessage env)))"
          using Cons NullEntry by (simp add: nth_renderResults snd_slideTask_null)
        moreover have "0 < length (renderResults env ?entries)"
          using Cons by (simp add: length_renderResults)
        ultimately have "Inl (Thrown (Some (nullErrorMessage env))) \<in> set (renderResults env ?entries)"
          by (metis nth_mem)
        with tryBlock_outline_answers [OF t] assms ok Inr Cons NullEntry show ?thesis
          by (simp add: Let_def rendering_def)
      next
        case (Entry obj)
        with tryBlock_outline_answers [OF t] assms ok Cons show ?thesis
          by (simp add: Let_def)
      qed
    qed
  qed
qed

text \<open>
  C9. Whatever the \<open>try\<close> block of an accepted submission throws, be it the throw of the
  outline call, the rejection of a render or the failed read of entry 0: when its message
  contains "Requested entity was not found", "404" or "403" the run ends with the
  credential message and the credential flag off, so that the key modal shows once the key
  check has finished; otherwise it ends with the generic message and the flag as it was.
  The two messages differ, and no presentation is set either way.
\<close>

theorem credential_reclassification:
  assumes "accepted st" and "fst (tryBlock env (started st)) = Some err"
  shows "(credentialShaped err \<longrightarrow>
            error (fst (handleGenerate env st)) = Some credentialMessage
          \<and> \<not> hasApiKey (fst (handleGenerate env st))
          \<and> (\<not> checkingKey st \<longrightarrow> keySelectionModalShown (fst (handleGenerate env st))))
       \<and> (\<not> credentialShaped err \<longrightarrow>
            error (fst (handleGenerate env st)) = Some genericFailureMessage
          \<and> hasApiKey (fst (handleGenerate env st)) = hasApiKey st)
       \<and> credentialMessage \<noteq> genericFailureMessage
       \<and> presentation (fst (handleGenerate env st)) = presentation st
       \<and> \<not> isLoading (fst (handleGenerate env st))
       \<and> (textService env (submittedRequest st) = Inl err
          \<or> (\<exists>response. textService env (submittedRequest st) = Inr response
               \<and> (Inl err \<in> set (renderResults env (outline (readOutlineResponse (jsonParse env) response)))
                    \<or> (outline (readOutlineResponse (jsonParse env) response) = []
                         \<and> err = Thrown (Some (typeErrorMessage env))))))"
proof -
  obtain st2 calls where tb: "tryBlock env (started st) = (Some err, st2, calls)"
    using assms(2) by (cases "tryBlock env (started st)") auto
  from raised_cases [OF assms(2)] tb
  have keeps: "hasApiKey st2 = hasApiKey st \<and> checkingKey st2 = checkingKey st
      \<and> presentation st2 = presentation st"
    by auto
  have run: "fst (handleGenerate env st) = finallyBlock (catchBlock err st2)"
    by (simp add: handleGenerate_accepted [OF assms(1)] tb)
  have origin: "textService env (submittedRequest st) = Inl err
          \<or> (\<exists>response. textService env (submittedRequest st) = Inr response
               \<and> (Inl err \<in> set (renderResults env (outline (readOutlineResponse (jsonParse env) response)))
                    \<or> (outline (readOutlineResponse (jsonParse env) response) = []
                         \<and> err = Thrown (Some (typeErrorMessage env)))))"
    using raised_cases [OF assms(2)] by blast
  have outcome: "(credentialShaped err \<longrightarrow>
            error (fst (handleGenerate env st)) = Some credentialMessage
          \<and> \<not> hasApiKey (fst (handleGenerate env st))
          \<and> (\<not> checkingKey st \<longrightarrow> keySelectionModalShown (fst (handleGenerate env st))))
       \<and> (\<not> credentialShaped err \<longrightarrow>
            error (fst (handleGenerate env st)) = Some genericFailureMessage
          \<and> hasApiKey (fst (handleGenerate env st)) = hasApiKey st)
       \<and> credentialMessage \<noteq> genericFailureMessage
       \<and> presentation (fst (handleGenerate env st)) = presentation st
       \<and> \<not> isLoading (fst (handleGenerate env st))"
    using keeps messages_differ
    by (simp add: run catchBlock_def finallyBlock_def keySelectionModalShown_def
          isCredentialError_iff)
  from outcome origin show ?thesis by blast
qed

theorem credential_reclassification_witness:
  "error (fst (handleGenerate
      (exampleEnv (Inl (Thrown (Some (ascii ''got status: 403 Forbidden'')))) (\<lambda>index. imageWithPayload) [])
      exampleState)) = Some credentialMessage
   \<and> \<not> hasApiKey (fst (handleGenerate
      (exampleEnv (Inl (Thrown (Some (ascii ''got status: 403 Forbidden'')))) (\<lambda>index. imageWithPayload) [])
      exampleState))
   \<and> keySelectionModalShown (fst (handleGenerate
      (exampleEnv (Inl (Thrown (Some (ascii ''got status: 403 Forbidden'')))) (\<lambda>index. imageWithPayload) [])
      exampleState))
   \<and> error (fst (handleGenerate
      (exampleEnv (Inl (Thrown (Some (ascii ''fetch failed'')))) (\<lambda>index. imageWithPayload) [])
      exampleState)) = Some genericFailureMessage
   \<and> hasApiKey (fst (handleGenerate
      (exampleEnv (Inl (Thrown (Some (ascii ''fetch failed'')))) (\<lambda>index. imageWithPayload) [])
      exampleState))
   \<and> error (fst (handleGenerate
      (exampleEnv (Inl (Thrown None)) (\<lambda>index. imageWithPayload) [])
      exampleState)) = Some genericFailureMessage"
proof -
  let ?denied = "Thrown (Some (ascii ''got status: 403 Forbidden''))"
  let ?other = "Thrown (Some (ascii ''fetch failed''))"
  let ?bare = "Thrown None"
  have raised: "fst (tryBlock (exampleEnv (Inl e) (\<lambda>index. imageWithPayload) []) (started exampleState)) = Some e"
    for e
  proof -
    have "textService (exampleEnv (Inl e) (\<lambda>index. imageWithPayload) []) (submittedRequest (started exampleState)) = Inl e"
      by (simp add: exampleEnv_def)
    from tryBlock_outline_throws [OF this] show ?thesis by simp
  qed
  have shaped: "credentialShaped ?denied" "\<not> credentialShaped ?other" "\<not> credentialShaped ?bare"
    by (simp_all add: credentialShaped_def messageContains_def ascii_def)
  have flags: "hasApiKey exampleState" "\<not> checkingKey exampleState"
    by (simp_all add: exampleState_def initialState_def)
  from credential_reclassification [OF accepted_exampleState raised [of ?denied]]
    credential_reclassification [OF accepted_exampleState raised [of ?other]]
    credential_reclassification [OF accepted_exampleState raised [of ?bare]]
    shaped flags
  show ?thesis by simp
qed

section \<open>An empty outline\<close>

text \<open>
  C10. When the match in the response text parses to the empty array, the outline is empty
  and the synthetic entry is not put in its place. An accepted submission then sends the
  outline request and no render request, the read of entry 0 throws the engine's
  \<open>TypeError\<close>, and the presentation stays as it was; the run ends with the generic message
  whenever the engine's message holds none of the three credential texts.
\<close>

theorem empty_outline_edge_case:
  assumes "accepted st"
    and "textService env (submittedRequest st) = Inr response"
    and "jsonMatch (responseText response) = Some m"
    and "jsonParse env m = Some []"
  shows "outline (readOutlineResponse (jsonParse env) response) = []
    \<and> outline (readOutlineResponse (jsonParse env) response) \<noteq> fallbackOutline
    \<and> snd (handleGenerate env st) = [OutlineCall (submittedRequest st)]
    \<and> renderCalls (snd (handleGenerate env st)) = []
    \<and> fst (tryBlock env (started st)) = Some (Thrown (Some (typeErrorMessage env)))
    \<and> presentation (fst (handleGenerate env st)) = presentation st
    \<and> (\<not> credentialShaped (Thrown (Some (typeErrorMessage env)))
         \<longrightarrow> error (fst (handleGenerate env st)) = Some genericFailureMessage)"
proof -
  have empty: "outline (readOutlineResponse (jsonParse env) response) = []"
    using assms(3,4) by (simp add: readOutlineResponse_def parseOutline_def)
  have t: "textService env (submittedRequest (started st)) = Inr response"
    using assms(2) by simp
  have raised: "fst (tryBlock env (started st)) = Some (Thrown (Some (typeErrorMessage env)))"
    using tryBlock_outline_answers [OF t] empty
    by (simp add: Let_def renderResults_def slidePromises_def promiseAll_def)
  note run = run_empty_outline [OF assms(1,2) empty]
  show ?thesis
    using empty raised
    by (simp add: run error_catchBlock isCredentialError_iff fallbackOutline_def)
qed

theorem empty_outline_edge_case_witness:
  "jsonMatch (ascii ''Sure: []'') = Some (ascii ''[]'')
   \<and> outline (readOutlineResponse exampleParse \<lparr>resp_text = Some (ascii ''Sure: []''), groundingChunks = None\<rparr>) = []
   \<and> renderCalls (snd (handleGenerate
        (exampleEnv (Inr (ascii ''Sure: []'')) (\<lambda>index. imageWithPayload) []) exampleState)) = []
   \<and> presentation (fst (handleGenerate
        (exampleEnv (Inr (ascii ''Sure: []'')) (\<lambda>index. imageWithPayload) []) exampleState)) = None
   \<and> error (fst (handleGenerate
        (exampleEnv (Inr (ascii ''Sure: []'')) (\<lambda>index. imageWithPayload) []) exampleState))
       = Some genericFailureMessage"
proof -
  let ?env = "exampleEnv (Inr (ascii ''Sure: []'')) (\<lambda>index. imageWithPayload) []"
  let ?response = "\<lparr>resp_text = Some (ascii ''Sure: []''), groundingChunks = None\<rparr>"
  have h2: "textService ?env (submittedRequest exampleState) = Inr ?response"
    by (simp add: exampleEnv_def)
  have m: "jsonMatch (ascii ''Sure: []'') = Some (ascii ''[]'')"
    by (rule example_match_empty)
  have h3: "jsonMatch (responseText ?response) = Some (ascii ''[]'')"
    using m by (simp add: responseText_def)
  have h4: "jsonParse ?env (ascii ''[]'') = Some []"
    by (simp add: exampleEnv_def example_parse_empty)
  have p: "jsonParse ?env = exampleParse" "typeErrorMessage ?env = v8TypeErrorMessage"
    by (simp_all add: exampleEnv_def)
  have plain: "\<not> credentialShaped (Thrown (Some v8TypeErrorMessage))"
    by (simp add: credentialShaped_def messageContains_def v8TypeErrorMessage_def ascii_def)
  have before: "presentation exampleState = None"
    by (simp add: exampleState_def initialState_def)
  from empty_outline_edge_case [OF accepted_exampleState h2 h3 h4] m plain before
  show ?thesis by (simp add: p)
qed

section \<open>The credential gate\<close>

lemma calls_of_run:
  "snd (handleGenerate env st) =
     (if accepted st
      then (case textService env (submittedRequest st) of
              Inl err \<Rightarrow> [OutlineCall (submittedRequest st)]
            | Inr response \<Rightarrow> allCalls st (outline (readOutlineResponse (jsonParse env) response)))
      else [])"
proof (cases "accepted st")
  case False
  with handleGenerate_not_accepted [OF False, of env] show ?thesis by simp
next
  case True
  show ?thesis
  proof (cases "textService env (submittedRequest st)")
    case (Inl err)
    from run_outline_throws [OF True Inl] True Inl show ?thesis by simp
  next
    case (Inr response)
    from run_calls [OF True Inr] True Inr show ?thesis by simp
  qed
qed

lemma flag_not_read [simp]:
  "accepted (st\<lparr>hasApiKey := b\<rparr>) = accepted st"
  "submittedRequest (st\<lparr>hasApiKey := b\<rparr>) = submittedRequest st"
  "allCalls (st\<lparr>hasApiKey := b\<rparr>) entries = allCalls st entries"
  by (simp_all add: accepted_def submittedRequest_def allCalls_def)

text \<open>The handler's calls and the state it reaches do not depend on the credential flag.\<close>

lemma handler_ignores_the_flag:
  "snd (handleGenerate env (st\<lparr>hasApiKey := b\<rparr>)) = snd (handleGenerate env st)"
  by (simp add: calls_of_run split: sum.split)

text \<open>The guard on a run in progress, by contrast, is inside the handler.\<close>

lemma single_flight_guard: "isLoading st \<Longrightarrow> handleGenerate env st = (st, [])"
  by (simp add: handleGenerate_def)

lemma accepted_gatedState: "accepted gatedState"
  by (simp add: accepted_def gatedState_def checkKey_def initialState_def js_trim_def
        isWhiteSpace_def ascii_def)

text \<open>
  C4. The handler does not test the credential flag. In the state in which the gate has
  reported that no key is selected (the flag is off, the check has finished and the key
  modal is rendered), a submission of the topic \<open>AI\<close> sends the outline request and, the
  outline answered with two entries, two render requests, and a presentation of two slides
  is set; the same submission sends nothing while a run is in progress, the guard that the
  handler does have.
\<close>

theorem credential_gate_failing_input:
  "\<not> hasApiKey gatedState
   \<and> \<not> checkingKey gatedState
   \<and> keySelectionModalShown gatedState
   \<and> outlineCalls (snd (handleGenerate
        (exampleEnv (Inr exampleAnswer) (\<lambda>index. imageWithPayload) []) gatedState))
      = [submittedRequest gatedState]
   \<and> length (renderCalls (snd (handleGenerate
        (exampleEnv (Inr exampleAnswer) (\<lambda>index. imageWithPayload) []) gatedState))) = 2
   \<and> (\<exists>p. presentation (fst (handleGenerate
        (exampleEnv (Inr exampleAnswer) (\<lambda>index. imageWithPayload) []) gatedState)) = Some p
        \<and> length (slides p) = 2)
   \<and> snd (handleGenerate
        (exampleEnv (Inr exampleAnswer) (\<lambda>index. imageWithPayload) [])
        (gatedState\<lparr>isLoading := True\<rparr>)) = []"
proof -
  let ?env = "exampleEnv (Inr exampleAnswer) (\<lambda>index. imageWithPayload) []"
  let ?response = "\<lparr>resp_text = Some exampleAnswer, groundingChunks = None\<rparr>"
  let ?first = "\<lparr>title = ascii ''Intro'', content = ascii ''Hello'', visualDescription = ascii ''Blue''\<rparr>"
  let ?second = "\<lparr>title = ascii ''End'', content = ascii ''Bye'', visualDescription = ascii ''Red''\<rparr>"
  have flags: "\<not> hasApiKey gatedState \<and> \<not> checkingKey gatedState \<and> keySelectionModalShown gatedState"
    by (simp add: gatedState_def checkKey_def keySelectionModalShown_def)
  have t: "textService ?env (submittedRequest gatedState) = Inr ?response"
    by (simp add: exampleEnv_def)
  have p: "jsonParse ?env = exampleParse"
    by (simp add: exampleEnv_def)
  have out: "outline (readOutlineResponse (jsonParse ?env) ?response) = map Entry [?first, ?second]"
    by (simp add: p example_outline exampleEntries_def)
  have calls: "snd (handleGenerate ?env gatedState) = allCalls gatedState (map Entry [?first, ?second])"
    using run_calls [OF accepted_gatedState t] by (simp only: out)
  have png: "onePixelPng \<noteq> []"
    by (simp add: onePixelPng_def ascii_def)
  have ok: "\<forall>i<length [?first, ?second]. renderSucceeds ?env i (Entry ([?first, ?second] ! i))"
    using png by (simp add: renderSucceeds_def exampleEnv_def imageWithPayload_def imagePayload_def)
  have deck: "\<exists>p. presentation (fst (handleGenerate ?env gatedState)) = Some p \<and> length (slides p) = 2"
    using run_all_succeed [OF accepted_gatedState t out ok]
    by (simp add: finallyBlock_def)
  have busy: "snd (handleGenerate ?env (gatedState\<lparr>isLoading := True\<rparr>)) = []"
    by (simp add: single_flight_guard)
  show ?thesis
    using flags deck busy by (simp add: calls)
qed

section \<open>An upload of an unsupported type\<close>

lemma upload_messages_differ: "extractionFailedMessage \<noteq> unsupportedTypeMessage"
  by (simp add: extractionFailedMessage_def unsupportedTypeMessage_def)

theorem unsupported_upload_counterexample:
  "uploadedFile (exampleState\<lparr>uploadedFile :=
       Some \<lparr>file_name = ascii ''a.pdf'', file_type = PDF_MIME, file_data = Some (ascii ''JVBERi0='')\<rparr>\<rparr>)
     = Some \<lparr>file_name = ascii ''a.pdf'', file_type = PDF_MIME, file_data = Some (ascii ''JVBERi0='')\<rparr>
   \<and> uploadedFile (handleFileUpload
        (Some \<lparr>upload_name = ascii ''a.png'', upload_type = ascii ''image/png'',
               asDataURL = ascii ''data:image/png;base64,iVBOR'', asText = [], rawText = None\<rparr>)
        (exampleState\<lparr>uploadedFile :=
           Some \<lparr>file_name = ascii ''a.pdf'', file_type = PDF_MIME, file_data = Some (ascii ''JVBERi0='')\<rparr>\<rparr>))
     = None
   \<and> error (handleFileUpload
        (Some \<lparr>upload_name = ascii ''a.png'', upload_type = ascii ''image/png'',
               asDataURL = ascii ''data:image/png;base64,iVBOR'', asText = [], rawText = None\<rparr>)
        (exampleState\<lparr>uploadedFile :=
           Some \<lparr>file_name = ascii ''a.pdf'', file_type = PDF_MIME, file_data = Some (ascii ''JVBERi0='')\<rparr>\<rparr>))
     = Some unsupportedTypeMessage
   \<and> uploadedFile (handleFileUpload
        (Some \<lparr>upload_name = ascii ''a.png'', upload_type = ascii ''image/png'',
               asDataURL = ascii ''data:image/png;base64,iVBOR'', asText = [], rawText = None\<rparr>)
        (exampleState\<lparr>uploadedFile :=
           Some \<lparr>file_name = ascii ''a.pdf'', file_type = PDF_MIME, file_data = Some (ascii ''JVBERi0='')\<rparr>\<rparr>))
     \<noteq> uploadedFile (exampleState\<lparr>uploadedFile :=
           Some \<lparr>file_name = ascii ''a.pdf'', file_type = PDF_MIME, file_data = Some (ascii ''JVBERi0='')\<rparr>\<rparr>)"
  by (simp add: handleFileUpload_def PDF_MIME_def DOCX_MIME_def TEXT_MIME_def js_endsWith_def ascii_def)

lemma docx_suffix: "js_endsWith (ascii ''notes.docx'') (ascii ''.docx'')"
  by (simp add: js_endsWith_def ascii_def)

text \<open>
  C5, as the code has it. A file whose type is none of the three recognised ones and whose
  name does not end in \<open>.docx\<close> is rejected with the unsupported-type message; the input
  text is untouched, while the attached document is cleared, since the handler resets the
  attachment and the error before it looks at the type; nothing else of the state changes.
  No other upload gets that message: a file of type \<open>application/pdf\<close> is attached as a PDF
  whatever its name, and any other file whose name ends in \<open>.docx\<close> is read as a Word
  document whatever its type, its extracted text appended to the input text or, when the
  extraction fails, the extraction message set.
\<close>

theorem unsupported_upload:
  "(upload_type file \<noteq> PDF_MIME \<and> upload_type file \<noteq> DOCX_MIME \<and> upload_type file \<noteq> TEXT_MIME
      \<and> \<not> js_endsWith (upload_name file) (ascii ''.docx'')
     \<longrightarrow> handleFileUpload (Some file) st = st\<lparr>uploadedFile := None, error := Some unsupportedTypeMessage\<rparr>
       \<and> error (handleFileUpload (Some file) st) = Some unsupportedTypeMessage
       \<and> inputText (handleFileUpload (Some file) st) = inputText st
       \<and> uploadedFile (handleFileUpload (Some file) st) = None)
   \<and> (error (handleFileUpload (Some file) st) = Some unsupportedTypeMessage
        \<longleftrightarrow> upload_type file \<noteq> PDF_MIME \<and> upload_type file \<noteq> DOCX_MIME
            \<and> upload_type file \<noteq> TEXT_MIME \<and> \<not> js_endsWith (upload_name file) (ascii ''.docx''))
   \<and> (upload_type file = PDF_MIME
     \<longrightarrow> handleFileUpload (Some file) st
         = st\<lparr>uploadedFile := Some \<lparr>file_name = upload_name file, file_type = PDF_MIME,
                                    file_data = splitComma1 (asDataURL file)\<rparr>,
               error := None\<rparr>)
   \<and> (upload_type file \<noteq> PDF_MIME \<and> js_endsWith (upload_name file) (ascii ''.docx'')
     \<longrightarrow> handleFileUpload (Some file) st
         = (case rawText file of
              Some extracted \<Rightarrow>
                st\<lparr>uploadedFile := None, error := None,
                    inputText := appendContent (inputText st) (upload_name file) extracted\<rparr>
            | None \<Rightarrow> st\<lparr>uploadedFile := None, error := Some extractionFailedMessage\<rparr>))"
  using upload_messages_differ
  by (auto simp: handleFileUpload_def Let_def split: option.splits)

theorem unsupported_upload_witness:
  "handleFileUpload
      (Some \<lparr>upload_name = ascii ''a.png'', upload_type = ascii ''image/png'',
             asDataURL = ascii ''data:image/png;base64,iVBOR'', asText = [], rawText = None\<rparr>)
      exampleState
     = exampleState\<lparr>uploadedFile := None, error := Some unsupportedTypeMessage\<rparr>
   \<and> inputText (handleFileUpload
      (Some \<lparr>upload_name = ascii ''a.png'', upload_type = ascii ''image/png'',
             asDataURL = ascii ''data:image/png;base64,iVBOR'', asText = [], rawText = None\<rparr>)
      exampleState) = ascii ''AI''
   \<and> handleFileUpload
      (Some \<lparr>upload_name = ascii ''notes.docx'', upload_type = [],
             asDataURL = [], asText = [], rawText = Some (ascii ''Body'')\<rparr>)
      exampleState
     = exampleState\<lparr>uploadedFile := None, error := None,
         inputText := appendContent (ascii ''AI'') (ascii ''notes.docx'') (ascii ''Body'')\<rparr>
   \<and> handleFileUpload
      (Some \<lparr>upload_name = ascii ''notes.docx'', upload_type = PDF_MIME,
             asDataURL = ascii ''data:application/pdf;base64,JVBERi0='', asText = [], rawText = None\<rparr>)
      exampleState
     = exampleState\<lparr>uploadedFile :=
           Some \<lparr>file_name = ascii ''notes.docx'', file_type = PDF_MIME,
                 file_data = Some (ascii ''JVBERi0='')\<rparr>,
         error := None\<rparr>"
proof -
  let ?png = "\<lparr>upload_name = ascii ''a.png'', upload_type = ascii ''image/png'',
             asDataURL = ascii ''data:image/png;base64,iVBOR'', asText = [], rawText = None\<rparr>"
  let ?docx = "\<lparr>upload_name = ascii ''notes.docx'', upload_type = [],
             asDataURL = [], asText = [], rawText = Some (ascii ''Body'')\<rparr>"
  let ?pdf = "\<lparr>upload_name = ascii ''notes.docx'', upload_type = PDF_MIME,
             asDataURL = ascii ''data:application/pdf;base64,JVBERi0='', asText = [], rawText = None\<rparr>"
  have png: "upload_type ?png \<noteq> PDF_MIME \<and> upload_type ?png \<noteq> DOCX_MIME \<and> upload_type ?png \<noteq> TEXT_MIME
      \<and> \<not> js_endsWith (upload_name ?png) (ascii ''.docx'')"
    by (simp add: PDF_MIME_def DOCX_MIME_def TEXT_MIME_def js_endsWith_def ascii_def)
  have docx: "upload_type ?docx \<noteq> PDF_MIME \<and> js_endsWith (upload_name ?docx) (ascii ''.docx'')"
    by (simp add: PDF_MIME_def docx_suffix) (simp add: ascii_def)
  have pdf: "upload_type ?pdf = PDF_MIME"
    by simp
  have txt0: "inputText exampleState = ascii ''AI''"
    by (simp add: exampleState_def)
  have piece: "splitComma1 (ascii ''data:application/pdf;base64,JVBERi0='') = Some (ascii ''JVBERi0='')"
    by (simp add: splitComma1_def COMMA_def ascii_def)
  from unsupported_upload [of ?png exampleState] png txt0
  have first: "handleFileUpload (Some ?png) exampleState
        = exampleState\<lparr>uploadedFile := None, error := Some unsupportedTypeMessage\<rparr>
      \<and> inputText (handleFileUpload (Some ?png) exampleState) = ascii ''AI''"
    by simp
  from unsupported_upload [of ?docx exampleState] docx txt0
  have second: "handleFileUpload (Some ?docx) exampleState
        = exampleState\<lparr>uploadedFile := None, error := None,
            inputText := appendContent (ascii ''AI'') (ascii ''notes.docx'') (ascii ''Body'')\<rparr>"
    by simp
  from unsupported_upload [of ?pdf exampleState] pdf piece
  have third: "handleFileUpload (Some ?pdf) exampleState
        = exampleState\<lparr>uploadedFile :=
             Some \<lparr>file_name = ascii ''notes.docx'', file_type = PDF_MIME,
                   file_data = Some (ascii ''JVBERi0='')\<rparr>,
           error := None\<rparr>"
    by simp
  from first second third show ?thesis by blast
qed

section \<open>The exports\<close>












text \<open>
  The component reads the current slide while it renders, so a component that is on screen
  has a deck with at least one slide.
\<close>

lemma displayable_has_slides: "displayable v \<Longrightarrow> slides (presentation_prop v) \<noteq> []"
  by (auto simp: displayable_def)



end
